theory Spec2Isabelle
  imports Complex_Main
begin

section \<open>The sandboxed expression evaluator of \<^verbatim>\<open>src/app/main.py\<close>\<close>

text \<open>
  The class \<^verbatim>\<open>SafeEvaluator\<close> sanitises a string, hands it to the interpreter's
  \<^verbatim>\<open>ast.parse(..., mode='eval')\<close> and walks the resulting tree in \<^verbatim>\<open>_eval\<close>.
  The parser and the float arithmetic belong to the host interpreter, not to the
  repository: the parser is a parameter of \<open>evaluate\<close>, and the operations on
  IEEE doubles and on complex numbers are the fields of a record \<open>host\<close>.
  Integers and booleans are computed exactly. Trees are those of Python 3.8 to 3.13,
  where every literal is an \<^verbatim>\<open>ast.Constant\<close> and \<^verbatim>\<open>ast.Num\<close> is a deprecated alias
  that the parser never produces. The interpreter's recursion limit and memory
  exhaustion inside \<^verbatim>\<open>_eval\<close> are not modelled.
\<close>

subsection \<open>Strings\<close>

text \<open>A Python \<^verbatim>\<open>str\<close> is a sequence of Unicode code points.\<close>

type_synonym pystr = "nat list"

definition py :: "string \<Rightarrow> pystr" where
  "py s = map of_char s"

subsection \<open>Exceptions\<close>

datatype type_error_cause =
    ArityMismatch    \<comment> \<open>a builtin called with the wrong number of arguments\<close>
  | NotCallable      \<comment> \<open>\<^verbatim>\<open>'float' object is not callable\<close>\<close>
  | BadOperand       \<comment> \<open>an operand or argument of unsupported type\<close>

datatype exn =
    ValueError string
  | SyntaxError
  | ZeroDivisionError
  | OverflowError
  | TypeError type_error_cause
  | RecursionError
  | MemoryError

subsection \<open>Syntax trees\<close>

text \<open>
  The classes of module \<^verbatim>\<open>ast\<close> that the source names, and the expression classes
  it does not name.
\<close>

datatype ast_class =
    Expression_c | BinOp_c | UnaryOp_c | Num_c | Constant_c
  | Add_c | Sub_c | Mult_c | Div_c | FloorDiv_c | Mod_c | Pow_c
  | USub_c | UAdd_c | Load_c | Call_c | Name_c | Tuple_c | List_c | MatMult_c
  | Attribute_c | Subscript_c | Starred_c
  | BoolOp_c | NamedExpr_c | Lambda_c | IfExp_c | Dict_c | Set_c
  | ListComp_c | SetComp_c | DictComp_c | GeneratorExp_c
  | Await_c | Yield_c | YieldFrom_c | Compare_c
  | FormattedValue_c | JoinedStr_c | Slice_c

datatype other_expr =
    BoolOp | NamedExpr | Lambda | IfExp | Dict | Set_e
  | ListComp | SetComp | DictComp | GeneratorExp
  | Await | Yield | YieldFrom | Compare
  | FormattedValue | JoinedStr | Slice

datatype operator =
    Add | Sub | Mult | MatMult | Div | Mod | Pow_op
  | LShift | RShift | BitOr | BitXor | BitAnd | FloorDiv

datatype unaryop = Invert | Not_op | UAdd | USub

text \<open>The values a \<^verbatim>\<open>Constant\<close> node can carry.\<close>

datatype 'f const_value =
    CInt int
  | CBool bool
  | CFloat 'f
  | CComplex
  | CStr pystr
  | CBytes
  | CNone
  | CEllipsis

datatype 'f expr =
    Constant "'f const_value"
  | UnaryOp unaryop "'f expr"
  | BinOp "'f expr" operator "'f expr"
  | Call "'f expr" "'f expr list" "(pystr option \<times> 'f expr) list"
      \<comment> \<open>\<^verbatim>\<open>func\<close>, \<^verbatim>\<open>args\<close>, \<^verbatim>\<open>keywords\<close>\<close>
  | Name pystr
  | Tuple "'f expr list"
  | List "'f expr list"
  | Attribute "'f expr" pystr
  | Subscript "'f expr" "'f expr"
  | Starred "'f expr"
  | OtherExpr other_expr "'f expr list"

fun class_of_other :: "other_expr \<Rightarrow> ast_class" where
  "class_of_other BoolOp = BoolOp_c"
| "class_of_other NamedExpr = NamedExpr_c"
| "class_of_other Lambda = Lambda_c"
| "class_of_other IfExp = IfExp_c"
| "class_of_other Dict = Dict_c"
| "class_of_other Set_e = Set_c"
| "class_of_other ListComp = ListComp_c"
| "class_of_other SetComp = SetComp_c"
| "class_of_other DictComp = DictComp_c"
| "class_of_other GeneratorExp = GeneratorExp_c"
| "class_of_other Await = Await_c"
| "class_of_other Yield = Yield_c"
| "class_of_other YieldFrom = YieldFrom_c"
| "class_of_other Compare = Compare_c"
| "class_of_other FormattedValue = FormattedValue_c"
| "class_of_other JoinedStr = JoinedStr_c"
| "class_of_other Slice = Slice_c"

fun class_of :: "'f expr \<Rightarrow> ast_class" where
  "class_of (Constant c) = Constant_c"
| "class_of (UnaryOp op x) = UnaryOp_c"
| "class_of (BinOp l op r) = BinOp_c"
| "class_of (Call f as ks) = Call_c"
| "class_of (Name n) = Name_c"
| "class_of (Tuple xs) = Tuple_c"
| "class_of (List xs) = List_c"
| "class_of (Attribute x a) = Attribute_c"
| "class_of (Subscript x i) = Subscript_c"
| "class_of (Starred x) = Starred_c"
| "class_of (OtherExpr k xs) = class_of_other k"

subsection \<open>Values\<close>

datatype const_name = Const_pi | Const_e

datatype func_name = Sqrt | Sin | Cos | Tan | Log | Log10 | Abs | Round

text \<open>
  What \<^verbatim>\<open>_eval\<close> can return: an \<^verbatim>\<open>int\<close>, a \<^verbatim>\<open>bool\<close>, a \<^verbatim>\<open>float\<close>, a
  \<^verbatim>\<open>complex\<close> (from \<^verbatim>\<open>**\<close>), or one of the builtin function objects of the table.
\<close>

datatype ('f, 'c) val =
    VInt int
  | VBool bool
  | VFloat 'f
  | VComplex 'c
  | VFunc func_name

definition as_int :: "('f, 'c) val \<Rightarrow> int option" where
  \<comment> \<open>\<^verbatim>\<open>bool\<close> is a subclass of \<^verbatim>\<open>int\<close>: \<^verbatim>\<open>True\<close> is 1 and \<^verbatim>\<open>False\<close> is 0.\<close>
  "as_int v = (case v of VInt i \<Rightarrow> Some i
                 | VBool b \<Rightarrow> Some (if b then 1 else 0)
                 | _ \<Rightarrow> None)"

definition is_float :: "('f, 'c) val \<Rightarrow> bool" where
  "is_float v = (case v of VFloat x \<Rightarrow> True | _ \<Rightarrow> False)"

definition is_complex :: "('f, 'c) val \<Rightarrow> bool" where
  "is_complex v = (case v of VComplex c \<Rightarrow> True | _ \<Rightarrow> False)"

definition is_func :: "('f, 'c) val \<Rightarrow> bool" where
  "is_func v = (case v of VFunc f \<Rightarrow> True | _ \<Rightarrow> False)"

definition is_real_number :: "('f, 'c) val \<Rightarrow> bool" where
  \<comment> \<open>an \<^verbatim>\<open>int\<close>, a \<^verbatim>\<open>bool\<close> or a \<^verbatim>\<open>float\<close>\<close>
  "is_real_number v = (case v of VInt i \<Rightarrow> True | VBool b \<Rightarrow> True
                         | VFloat x \<Rightarrow> True | _ \<Rightarrow> False)"

subsection \<open>The host interpreter's floats\<close>

text \<open>
  The operations of the interpreter on \<^verbatim>\<open>float\<close> (\<open>'f\<close>) and \<^verbatim>\<open>complex\<close> (\<open>'c\<close>)
  objects. Which exception an operator raises, and when, is written out in the
  functions \<open>py_...\<close> below; only the computation on doubles is left to the record.
\<close>

record ('f, 'c) host =
  float_of_int :: "int \<Rightarrow> 'f option"
    \<comment> \<open>\<^verbatim>\<open>float(i)\<close>; \<open>None\<close> when the integer is too large to convert\<close>
  int_truediv :: "int \<Rightarrow> int \<Rightarrow> 'f option"
    \<comment> \<open>\<^verbatim>\<open>i / j\<close> on integers, \<open>j \<noteq> 0\<close>; \<open>None\<close> when the quotient is too large\<close>
  float_add :: "'f \<Rightarrow> 'f \<Rightarrow> 'f"
  float_sub :: "'f \<Rightarrow> 'f \<Rightarrow> 'f"
  float_mul :: "'f \<Rightarrow> 'f \<Rightarrow> 'f"
  float_truediv :: "'f \<Rightarrow> 'f \<Rightarrow> 'f"     \<comment> \<open>divisor not zero\<close>
  float_floordiv :: "'f \<Rightarrow> 'f \<Rightarrow> 'f"    \<comment> \<open>divisor not zero\<close>
  float_mod :: "'f \<Rightarrow> 'f \<Rightarrow> 'f"         \<comment> \<open>divisor not zero\<close>
  float_pow :: "'f \<Rightarrow> 'f \<Rightarrow> exn + ('f, 'c) val"
    \<comment> \<open>may raise, and returns a \<^verbatim>\<open>complex\<close> for a negative base and a fractional exponent\<close>
  float_neg :: "'f \<Rightarrow> 'f"
  float_abs :: "'f \<Rightarrow> 'f"
  float_is_zero :: "'f \<Rightarrow> bool"
  float_gt_int :: "'f \<Rightarrow> int \<Rightarrow> bool"
    \<comment> \<open>\<^verbatim>\<open>x > n\<close> for an integral bound; the comparison is exact\<close>
  float_round :: "'f \<Rightarrow> exn + int"         \<comment> \<open>\<^verbatim>\<open>round(x)\<close>\<close>
  float_round_nd :: "'f \<Rightarrow> int \<Rightarrow> exn + 'f"  \<comment> \<open>\<^verbatim>\<open>round(x, n)\<close>\<close>
  math_fn :: "func_name \<Rightarrow> 'f \<Rightarrow> exn + 'f"
    \<comment> \<open>\<^verbatim>\<open>math.sqrt\<close>, \<^verbatim>\<open>sin\<close>, \<^verbatim>\<open>cos\<close>, \<^verbatim>\<open>tan\<close>, \<^verbatim>\<open>log\<close>, \<^verbatim>\<open>log10\<close> on a float\<close>
  int_log :: "func_name \<Rightarrow> int \<Rightarrow> 'f"
    \<comment> \<open>\<^verbatim>\<open>math.log\<close> and \<^verbatim>\<open>math.log10\<close> of a positive integer\<close>
  complex_of_float :: "'f \<Rightarrow> 'c"
  complex_add :: "'c \<Rightarrow> 'c \<Rightarrow> 'c"
  complex_sub :: "'c \<Rightarrow> 'c \<Rightarrow> 'c"
  complex_mul :: "'c \<Rightarrow> 'c \<Rightarrow> 'c"
  complex_truediv :: "'c \<Rightarrow> 'c \<Rightarrow> 'c"   \<comment> \<open>divisor not zero\<close>
  complex_pow :: "'c \<Rightarrow> 'c \<Rightarrow> exn + 'c"
  complex_neg :: "'c \<Rightarrow> 'c"
  complex_abs :: "'c \<Rightarrow> 'f option"        \<comment> \<open>\<open>None\<close> when the magnitude overflows\<close>
  complex_is_zero :: "'c \<Rightarrow> bool"
  const_float :: "const_name \<Rightarrow> 'f"        \<comment> \<open>\<^verbatim>\<open>math.pi\<close>, \<^verbatim>\<open>math.e\<close>\<close>

subsection \<open>Python's operators on the values\<close>

definition and_then :: "exn + 'a \<Rightarrow> ('a \<Rightarrow> exn + 'b) \<Rightarrow> exn + 'b" where
  "and_then r f = (case r of Inl e \<Rightarrow> Inl e | Inr x \<Rightarrow> f x)"

definition to_float :: "('f, 'c) host \<Rightarrow> ('f, 'c) val \<Rightarrow> exn + 'f" where
  "to_float F v = (case v of
       VInt i \<Rightarrow> (case float_of_int F i of None \<Rightarrow> Inl OverflowError | Some x \<Rightarrow> Inr x)
     | VBool b \<Rightarrow> (case float_of_int F (if b then 1 else 0) of
                     None \<Rightarrow> Inl OverflowError | Some x \<Rightarrow> Inr x)
     | VFloat x \<Rightarrow> Inr x
     | _ \<Rightarrow> Inl (TypeError BadOperand))"

definition to_complex :: "('f, 'c) host \<Rightarrow> ('f, 'c) val \<Rightarrow> exn + 'c" where
  "to_complex F v = (case v of
       VComplex c \<Rightarrow> Inr c
     | _ \<Rightarrow> and_then (to_float F v) (\<lambda>x. Inr (complex_of_float F x)))"

text \<open>
  The operands of a binary operator after Python's numeric coercion: two integers,
  two floats or two complex numbers. A function object supports no arithmetic.
\<close>

datatype ('f, 'c) operands = Ints int int | Floats 'f 'f | Complexes 'c 'c

definition coerce :: "('f, 'c) host \<Rightarrow> ('f, 'c) val \<Rightarrow> ('f, 'c) val \<Rightarrow> exn + ('f, 'c) operands" where
  "coerce F l r =
     (if is_func l \<or> is_func r then Inl (TypeError BadOperand)
      else case (as_int l, as_int r) of
        (Some i, Some j) \<Rightarrow> Inr (Ints i j)
      | _ \<Rightarrow>
        if is_complex l \<or> is_complex r
        then and_then (to_complex F l) (\<lambda>a. and_then (to_complex F r) (\<lambda>b. Inr (Complexes a b)))
        else and_then (to_float F l) (\<lambda>x. and_then (to_float F r) (\<lambda>y. Inr (Floats x y))))"

text \<open>
  A divisor is zero exactly when the operand is: the conversion of an integer to a
  float, and of either to a complex number, is exact at zero and gives zero nowhere else.
  The operands are converted first, so a conversion that overflows is reported first.
\<close>

definition is_zero :: "('f, 'c) host \<Rightarrow> ('f, 'c) val \<Rightarrow> bool" where
  "is_zero F v = (case v of
       VInt i \<Rightarrow> i = 0
     | VBool b \<Rightarrow> b = False
     | VFloat x \<Rightarrow> float_is_zero F x
     | VComplex c \<Rightarrow> complex_is_zero F c
     | VFunc f \<Rightarrow> False)"

definition py_add :: "('f, 'c) host \<Rightarrow> ('f, 'c) val \<Rightarrow> ('f, 'c) val \<Rightarrow> exn + ('f, 'c) val" where
  "py_add F l r = and_then (coerce F l r) (\<lambda>ops. case ops of
       Ints i j \<Rightarrow> Inr (VInt (i + j))
     | Floats x y \<Rightarrow> Inr (VFloat (float_add F x y))
     | Complexes a b \<Rightarrow> Inr (VComplex (complex_add F a b)))"

definition py_sub :: "('f, 'c) host \<Rightarrow> ('f, 'c) val \<Rightarrow> ('f, 'c) val \<Rightarrow> exn + ('f, 'c) val" where
  "py_sub F l r = and_then (coerce F l r) (\<lambda>ops. case ops of
       Ints i j \<Rightarrow> Inr (VInt (i - j))
     | Floats x y \<Rightarrow> Inr (VFloat (float_sub F x y))
     | Complexes a b \<Rightarrow> Inr (VComplex (complex_sub F a b)))"

definition py_mul :: "('f, 'c) host \<Rightarrow> ('f, 'c) val \<Rightarrow> ('f, 'c) val \<Rightarrow> exn + ('f, 'c) val" where
  "py_mul F l r = and_then (coerce F l r) (\<lambda>ops. case ops of
       Ints i j \<Rightarrow> Inr (VInt (i * j))
     | Floats x y \<Rightarrow> Inr (VFloat (float_mul F x y))
     | Complexes a b \<Rightarrow> Inr (VComplex (complex_mul F a b)))"

definition py_truediv :: "('f, 'c) host \<Rightarrow> ('f, 'c) val \<Rightarrow> ('f, 'c) val \<Rightarrow> exn + ('f, 'c) val" where
  "py_truediv F l r = and_then (coerce F l r) (\<lambda>ops.
     if is_zero F r then Inl ZeroDivisionError
     else case ops of
       Ints i j \<Rightarrow>
         (case int_truediv F i j of None \<Rightarrow> Inl OverflowError | Some x \<Rightarrow> Inr (VFloat x))
     | Floats x y \<Rightarrow> Inr (VFloat (float_truediv F x y))
     | Complexes a b \<Rightarrow> Inr (VComplex (complex_truediv F a b)))"

definition py_floordiv :: "('f, 'c) host \<Rightarrow> ('f, 'c) val \<Rightarrow> ('f, 'c) val \<Rightarrow> exn + ('f, 'c) val" where
  \<comment> \<open>\<^verbatim>\<open>complex\<close> has no floor division\<close>
  "py_floordiv F l r =
     (if is_complex l \<or> is_complex r then Inl (TypeError BadOperand)
      else and_then (coerce F l r) (\<lambda>ops.
        if is_zero F r then Inl ZeroDivisionError
        else case ops of
          Ints i j \<Rightarrow> Inr (VInt (i div j))
        | Floats x y \<Rightarrow> Inr (VFloat (float_floordiv F x y))
        | Complexes a b \<Rightarrow> Inl (TypeError BadOperand)))"

definition py_mod :: "('f, 'c) host \<Rightarrow> ('f, 'c) val \<Rightarrow> ('f, 'c) val \<Rightarrow> exn + ('f, 'c) val" where
  \<comment> \<open>\<^verbatim>\<open>complex\<close> has no remainder\<close>
  "py_mod F l r =
     (if is_complex l \<or> is_complex r then Inl (TypeError BadOperand)
      else and_then (coerce F l r) (\<lambda>ops.
        if is_zero F r then Inl ZeroDivisionError
        else case ops of
          Ints i j \<Rightarrow> Inr (VInt (i mod j))
        | Floats x y \<Rightarrow> Inr (VFloat (float_mod F x y))
        | Complexes a b \<Rightarrow> Inl (TypeError BadOperand)))"

definition py_pow :: "('f, 'c) host \<Rightarrow> ('f, 'c) val \<Rightarrow> ('f, 'c) val \<Rightarrow> exn + ('f, 'c) val" where
  \<comment> \<open>an integer raised to a negative integer is computed on floats\<close>
  "py_pow F l r = and_then (coerce F l r) (\<lambda>ops. case ops of
       Ints i j \<Rightarrow>
         if 0 \<le> j then Inr (VInt (i ^ nat j))
         else and_then (to_float F (VInt i)) (\<lambda>x.
              and_then (to_float F (VInt j)) (\<lambda>y. float_pow F x y))
     | Floats x y \<Rightarrow> float_pow F x y
     | Complexes a b \<Rightarrow> and_then (complex_pow F a b) (\<lambda>c. Inr (VComplex c)))"

definition py_pos :: "('f, 'c) host \<Rightarrow> ('f, 'c) val \<Rightarrow> exn + ('f, 'c) val" where
  "py_pos F v = (case v of
       VInt i \<Rightarrow> Inr (VInt i)
     | VBool b \<Rightarrow> Inr (VInt (if b then 1 else 0))
     | VFloat x \<Rightarrow> Inr (VFloat x)
     | VComplex c \<Rightarrow> Inr (VComplex c)
     | VFunc f \<Rightarrow> Inl (TypeError BadOperand))"

definition py_neg :: "('f, 'c) host \<Rightarrow> ('f, 'c) val \<Rightarrow> exn + ('f, 'c) val" where
  "py_neg F v = (case v of
       VInt i \<Rightarrow> Inr (VInt (- i))
     | VBool b \<Rightarrow> Inr (VInt (- (if b then 1 else 0)))
     | VFloat x \<Rightarrow> Inr (VFloat (float_neg F x))
     | VComplex c \<Rightarrow> Inr (VComplex (complex_neg F c))
     | VFunc f \<Rightarrow> Inl (TypeError BadOperand))"

definition py_abs :: "('f, 'c) host \<Rightarrow> ('f, 'c) val \<Rightarrow> exn + ('f, 'c) val" where
  "py_abs F v = (case v of
       VInt i \<Rightarrow> Inr (VInt (\<bar>i\<bar>))
     | VBool b \<Rightarrow> Inr (VInt (if b then 1 else 0))
     | VFloat x \<Rightarrow> Inr (VFloat (float_abs F x))
     | VComplex c \<Rightarrow> (case complex_abs F c of
                        None \<Rightarrow> Inl OverflowError | Some x \<Rightarrow> Inr (VFloat x))
     | VFunc f \<Rightarrow> Inl (TypeError BadOperand))"

definition py_gt_int :: "('f, 'c) host \<Rightarrow> ('f, 'c) val \<Rightarrow> int \<Rightarrow> exn + bool" where
  \<comment> \<open>\<^verbatim>\<open>v > n\<close> for the bounds \<^verbatim>\<open>1e6\<close> (the float 1000000.0) and \<^verbatim>\<open>10\<close>; Python compares
      an \<^verbatim>\<open>int\<close> with a \<^verbatim>\<open>float\<close> exactly\<close>
  "py_gt_int F v n = (case v of
       VInt i \<Rightarrow> Inr (n < i)
     | VBool b \<Rightarrow> Inr (n < (if b then 1 else 0))
     | VFloat x \<Rightarrow> Inr (float_gt_int F x n)
     | _ \<Rightarrow> Inl (TypeError BadOperand))"

subsection \<open>The builtin functions of the table\<close>

definition math_arg :: "('f, 'c) host \<Rightarrow> ('f, 'c) val \<Rightarrow> exn + 'f" where
  \<comment> \<open>the argument of a \<^verbatim>\<open>math\<close> function is converted to a float\<close>
  "math_arg F v = to_float F v"

definition log_helper :: "('f, 'c) host \<Rightarrow> func_name \<Rightarrow> ('f, 'c) val \<Rightarrow> exn + 'f" where
  \<comment> \<open>\<^verbatim>\<open>math.log\<close> and \<^verbatim>\<open>math.log10\<close> treat an integer without converting it first\<close>
  "log_helper F f v = (case as_int v of
       Some i \<Rightarrow> if i \<le> 0 then Inl (ValueError ''math domain error'')
                 else Inr (int_log F f i)
     | None \<Rightarrow> and_then (to_float F v) (math_fn F f))"

definition round_half_even :: "int \<Rightarrow> int \<Rightarrow> int" where
  \<comment> \<open>the multiple of \<open>p > 0\<close> nearest to \<open>i\<close>, a tie going to the even quotient\<close>
  "round_half_even i p =
     (let d = i div p; m = i mod p
      in if 2 * m < p then d * p
         else if p < 2 * m then (d + 1) * p
         else if even d then d * p else (d + 1) * p)"

definition py_round :: "('f, 'c) host \<Rightarrow> ('f, 'c) val \<Rightarrow> ('f, 'c) val option \<Rightarrow> exn + ('f, 'c) val" where
  "py_round F v nd = (case v of
       VComplex c \<Rightarrow> Inl (TypeError BadOperand)
     | VFunc f \<Rightarrow> Inl (TypeError BadOperand)
     | VFloat x \<Rightarrow> (case nd of
           None \<Rightarrow> and_then (float_round F x) (\<lambda>i. Inr (VInt i))
         | Some n \<Rightarrow> (case as_int n of
               None \<Rightarrow> Inl (TypeError BadOperand)
             | Some k \<Rightarrow> and_then (float_round_nd F x k) (\<lambda>y. Inr (VFloat y))))
     | _ \<Rightarrow> (case as_int v of
           None \<Rightarrow> Inl (TypeError BadOperand)
         | Some i \<Rightarrow> (case nd of
               None \<Rightarrow> Inr (VInt i)
             | Some n \<Rightarrow> (case as_int n of
                   None \<Rightarrow> Inl (TypeError BadOperand)
                 | Some k \<Rightarrow> if 0 \<le> k then Inr (VInt i)
                             else Inr (VInt (round_half_even i (10 ^ nat (- k))))))))"

definition call_builtin :: "('f, 'c) host \<Rightarrow> func_name \<Rightarrow> ('f, 'c) val list \<Rightarrow> exn + ('f, 'c) val" where
  "call_builtin F f args = (case f of
       Abs \<Rightarrow> (case args of [v] \<Rightarrow> py_abs F v | _ \<Rightarrow> Inl (TypeError ArityMismatch))
     | Round \<Rightarrow> (case args of
           [v] \<Rightarrow> py_round F v None
         | [v, n] \<Rightarrow> py_round F v (Some n)
         | _ \<Rightarrow> Inl (TypeError ArityMismatch))
     | Log \<Rightarrow> (case args of
           [v] \<Rightarrow> and_then (log_helper F Log v) (\<lambda>x. Inr (VFloat x))
         | [v, b] \<Rightarrow> and_then (log_helper F Log v) (\<lambda>num.
                     and_then (log_helper F Log b) (\<lambda>den.
                       py_truediv F (VFloat num) (VFloat den)))
         | _ \<Rightarrow> Inl (TypeError ArityMismatch))
     | Log10 \<Rightarrow> (case args of
           [v] \<Rightarrow> and_then (log_helper F Log10 v) (\<lambda>x. Inr (VFloat x))
         | _ \<Rightarrow> Inl (TypeError ArityMismatch))
     | _ \<Rightarrow> (case args of
           [v] \<Rightarrow> and_then (math_arg F v) (\<lambda>x.
                   and_then (math_fn F f x) (\<lambda>y. Inr (VFloat y)))
         | _ \<Rightarrow> Inl (TypeError ArityMismatch)))"

definition call_value :: "('f, 'c) host \<Rightarrow> ('f, 'c) val \<Rightarrow> ('f, 'c) val list \<Rightarrow> exn + ('f, 'c) val" where
  \<comment> \<open>\<^verbatim>\<open>func(*args)\<close>: only a function object can be called\<close>
  "call_value F fv args = (case fv of
       VFunc f \<Rightarrow> call_builtin F f args
     | _ \<Rightarrow> Inl (TypeError NotCallable))"

subsection \<open>\<^verbatim>\<open>SafeEvaluator.__init__\<close>\<close>

definition allowed_nodes :: "ast_class list" where
  "allowed_nodes =
     [Expression_c, BinOp_c, UnaryOp_c, Num_c, Constant_c, Add_c, Sub_c, Mult_c, Div_c,
      FloorDiv_c, Mod_c, Pow_c, USub_c, UAdd_c, Load_c, Call_c, Name_c, Tuple_c, List_c,
      MatMult_c]"

datatype entry = ConstEntry const_name | FuncEntry func_name

definition allowed_names_items :: "(pystr \<times> entry) list" where
  "allowed_names_items =
     [(py ''pi'', ConstEntry Const_pi),
      (py ''e'', ConstEntry Const_e),
      (py ''sqrt'', FuncEntry Sqrt),
      (py ''sin'', FuncEntry Sin),
      (py ''cos'', FuncEntry Cos),
      (py ''tan'', FuncEntry Tan),
      (py ''log'', FuncEntry Log),
      (py ''log10'', FuncEntry Log10),
      (py ''abs'', FuncEntry Abs),
      (py ''round'', FuncEntry Round)]"

definition allowed_names :: "pystr \<Rightarrow> entry option" where
  "allowed_names = map_of allowed_names_items"

definition entry_value :: "('f, 'c) host \<Rightarrow> entry \<Rightarrow> ('f, 'c) val" where
  "entry_value F ent = (case ent of
       ConstEntry c \<Rightarrow> VFloat (const_float F c)
     | FuncEntry f \<Rightarrow> VFunc f)"

subsection \<open>\<^verbatim>\<open>SafeEvaluator._eval\<close>\<close>

text \<open>
  \<open>eval_node\<close> is \<^verbatim>\<open>_eval\<close>: the test against \<^verbatim>\<open>allowed_nodes\<close>, then
  \<open>eval_allowed\<close>, the rest of its body, one equation for each \<^verbatim>\<open>isinstance\<close>
  branch in the order of the source and the last one for the final \<^verbatim>\<open>raise\<close>.
  The branch for \<^verbatim>\<open>ast.Num\<close> comes after the one for \<^verbatim>\<open>ast.Constant\<close> and is never
  reached. \<open>eval_args\<close> is the list comprehension over \<^verbatim>\<open>node.args\<close>, which stops
  at the first argument that raises. The keywords of a call are not looked at.
\<close>

definition isinstance_allowed :: "'f expr \<Rightarrow> bool" where
  "isinstance_allowed node = (class_of node \<in> set allowed_nodes)"

fun eval_node :: "('f, 'c) host \<Rightarrow> 'f expr \<Rightarrow> exn + ('f, 'c) val"
and eval_allowed :: "('f, 'c) host \<Rightarrow> 'f expr \<Rightarrow> exn + ('f, 'c) val"
and eval_args :: "('f, 'c) host \<Rightarrow> 'f expr list \<Rightarrow> exn + ('f, 'c) val list" where
  "eval_node F node =
     (if isinstance_allowed node then eval_allowed F node
      else Inl (ValueError ''Disallowed expression''))"
| "eval_allowed F (Constant c) = (case c of
       CInt i \<Rightarrow> Inr (VInt i)
     | CBool b \<Rightarrow> Inr (VBool b)
     | CFloat x \<Rightarrow> Inr (VFloat x)
     | _ \<Rightarrow> Inl (ValueError ''Invalid constant''))"
| "eval_allowed F (UnaryOp op x) = (case eval_node F x of
       Inl e \<Rightarrow> Inl e
     | Inr operand \<Rightarrow> (case op of
           UAdd \<Rightarrow> py_pos F operand
         | USub \<Rightarrow> py_neg F operand
         | _ \<Rightarrow> Inl (ValueError ''Unsupported unary operator'')))"
| "eval_allowed F (BinOp l op r) = (case eval_node F l of
       Inl e \<Rightarrow> Inl e
     | Inr left \<Rightarrow> (case eval_node F r of
           Inl e \<Rightarrow> Inl e
         | Inr right \<Rightarrow> (case op of
               Add \<Rightarrow> py_add F left right
             | Sub \<Rightarrow> py_sub F left right
             | Mult \<Rightarrow> py_mul F left right
             | Div \<Rightarrow> py_truediv F left right
             | FloorDiv \<Rightarrow> py_floordiv F left right
             | Mod \<Rightarrow> py_mod F left right
             | Pow_op \<Rightarrow>
                 and_then (py_abs F left) (\<lambda>al.
                 and_then (py_gt_int F al 1000000) (\<lambda>big_base.
                   if big_base then Inl (ValueError ''Exponent too large'')
                   else and_then (py_abs F right) (\<lambda>ar.
                        and_then (py_gt_int F ar 10) (\<lambda>big_exp.
                          if big_exp then Inl (ValueError ''Exponent too large'')
                          else py_pow F left right))))
             | _ \<Rightarrow> Inl (ValueError ''Unsupported operator''))))"
| "eval_allowed F (Call func args keywords) = (case func of
       Name ident \<Rightarrow> (case allowed_names ident of
           Some ent \<Rightarrow> (case eval_args F args of
               Inl e \<Rightarrow> Inl e
             | Inr vs \<Rightarrow> call_value F (entry_value F ent) vs)
         | None \<Rightarrow> Inl (ValueError ''Function not allowed''))
     | _ \<Rightarrow> Inl (ValueError ''Function not allowed''))"
| "eval_allowed F (Name ident) = (case allowed_names ident of
       Some ent \<Rightarrow> Inr (entry_value F ent)
     | None \<Rightarrow> Inl (ValueError ''Unknown identifier''))"
| "eval_allowed F node = Inl (ValueError ''Invalid expression'')"
| "eval_args F [] = Inr []"
| "eval_args F (a # as) = (case eval_node F a of
       Inl e \<Rightarrow> Inl e
     | Inr v \<Rightarrow> (case eval_args F as of
           Inl e \<Rightarrow> Inl e
         | Inr vs \<Rightarrow> Inr (v # vs)))"

subsection \<open>\<^verbatim>\<open>SafeEvaluator.evaluate\<close>\<close>

definition str_replace :: "nat \<Rightarrow> nat \<Rightarrow> pystr \<Rightarrow> pystr" where
  \<comment> \<open>\<^verbatim>\<open>str.replace\<close> of one code point by another\<close>
  "str_replace old new s = map (\<lambda>c. if c = old then new else c) s"

definition sanitize :: "pystr \<Rightarrow> pystr" where
  \<comment> \<open>U+00D7 to \<^verbatim>\<open>*\<close>, U+00F7 to \<^verbatim>\<open>/\<close>, U+2212 to \<^verbatim>\<open>-\<close>\<close>
  "sanitize expression =
     str_replace 8722 45 (str_replace 247 47 (str_replace 215 42 expression))"

definition evaluate ::
  "('f, 'c) host \<Rightarrow> (pystr \<Rightarrow> exn + 'f expr) \<Rightarrow> pystr \<Rightarrow> exn + ('f, 'c) val" where
  \<comment> \<open>\<open>parse s\<close> is the \<^verbatim>\<open>body\<close> of \<^verbatim>\<open>ast.parse(s, mode='eval')\<close>, or what it raises;
      only its \<^verbatim>\<open>SyntaxError\<close> is caught\<close>
  "evaluate F parse expression =
     (let sanitized = sanitize expression
      in case parse sanitized of
           Inl SyntaxError \<Rightarrow> Inl (ValueError ''Invalid expression'')
         | Inl e \<Rightarrow> Inl e
         | Inr node \<Rightarrow> eval_node F node)"

subsection \<open>The vocabulary of the specification\<close>

text \<open>
  The specification names five kinds of error. The source raises \<^verbatim>\<open>ValueError\<close> with
  a message of its own for four of them and lets the interpreter's exceptions through
  for arithmetic; \<open>spec_kind\<close> reads the specification's kinds on those exceptions.
  An arity mismatch counts as arithmetic, as the specification says; a value that is
  not callable and an operand of unsupported type have no kind.
\<close>

datatype error_kind =
    SyntaxError_k
  | DisallowedNodeError_k
  | UnknownIdentifierError_k
  | FunctionNotAllowedError_k
  | ArithmeticError_k

definition spec_kind :: "exn \<Rightarrow> error_kind option" where
  "spec_kind e = (case e of
       ValueError m \<Rightarrow>
         if m = ''Invalid expression'' then Some SyntaxError_k
         else if m = ''Disallowed expression'' then Some DisallowedNodeError_k
         else if m = ''Unknown identifier'' then Some UnknownIdentifierError_k
         else if m = ''Function not allowed'' then Some FunctionNotAllowedError_k
         else if m = ''Exponent too large'' then Some ArithmeticError_k
         else if m = ''math domain error'' then Some ArithmeticError_k
         else None
     | ZeroDivisionError \<Rightarrow> Some ArithmeticError_k
     | OverflowError \<Rightarrow> Some ArithmeticError_k
     | TypeError c \<Rightarrow> (case c of ArityMismatch \<Rightarrow> Some ArithmeticError_k | _ \<Rightarrow> None)
     | _ \<Rightarrow> None)"

definition is_number :: "('f, 'c) val \<Rightarrow> bool" where
  "is_number v = (case v of VFunc f \<Rightarrow> False | _ \<Rightarrow> True)"

definition abs_exceeds :: "('f, 'c) host \<Rightarrow> ('f, 'c) val \<Rightarrow> int \<Rightarrow> bool" where
  \<comment> \<open>the specification's \<^verbatim>\<open>abs(v) > n\<close> for an \<^verbatim>\<open>int\<close>, a \<^verbatim>\<open>bool\<close> or a \<^verbatim>\<open>float\<close>\<close>
  "abs_exceeds F v n = (case v of
       VInt i \<Rightarrow> n < \<bar>i\<bar>
     | VBool b \<Rightarrow> n < (if b then 1 else 0)
     | VFloat x \<Rightarrow> float_gt_int F (float_abs F x) n
     | _ \<Rightarrow> False)"

text \<open>The ten names of the specification's registry.\<close>

definition spec_registry :: "pystr list" where
  "spec_registry =
     [py ''pi'', py ''e'', py ''sqrt'', py ''sin'', py ''cos'', py ''tan'', py ''log'',
      py ''log10'', py ''abs'', py ''round'']"

text \<open>
  The ASCII form of an expression, in the specification's words: the multiplication
  glyph U+00D7 becomes \<^verbatim>\<open>*\<close>, the division glyph U+00F7 becomes \<^verbatim>\<open>/\<close>, the minus glyph
  U+2212 becomes \<^verbatim>\<open>-\<close>, and every other code point stays.
\<close>

definition ascii_of_glyph :: "nat \<Rightarrow> nat" where
  "ascii_of_glyph c =
     (if c = 215 then 42 else if c = 247 then 47 else if c = 8722 then 45 else c)"

definition ascii_form :: "pystr \<Rightarrow> pystr" where
  "ascii_form s = map ascii_of_glyph s"



subsection \<open>A host and a parser to instantiate the theorems\<close>

text \<open>
  The theorems below hold for every host and every parser. To apply them to concrete
  inputs there are two hosts and a parser. \<open>sample_host\<close> has a single float value,
  which no integer computation consults. \<open>ideal_host\<close> computes on the real numbers,
  without rounding or overflow: its floats are the reals, its complex numbers the
  complex numbers, and its operations the mathematical ones. \<open>sample_parse\<close> knows the
  example strings: it raises \<^verbatim>\<open>SyntaxError\<close> for the empty string, \<^verbatim>\<open>(1+2\<close> and
  \<^verbatim>\<open>1++\<close>, and returns the trees that CPython's \<^verbatim>\<open>ast.parse\<close> returns for the
  others. It is not meant for any other string, for which it answers
  \<^verbatim>\<open>MemoryError\<close>.
\<close>

definition sample_host :: "(unit, unit) host" where
  "sample_host = \<lparr>
     float_of_int = (\<lambda>i. Some ()),
     int_truediv = (\<lambda>i j. Some ()),
     float_add = (\<lambda>x y. ()),
     float_sub = (\<lambda>x y. ()),
     float_mul = (\<lambda>x y. ()),
     float_truediv = (\<lambda>x y. ()),
     float_floordiv = (\<lambda>x y. ()),
     float_mod = (\<lambda>x y. ()),
     float_pow = (\<lambda>x y. Inr (VFloat ())),
     float_neg = (\<lambda>x. ()),
     float_abs = (\<lambda>x. ()),
     float_is_zero = (\<lambda>x. False),
     float_gt_int = (\<lambda>x n. False),
     float_round = (\<lambda>x. Inl (ValueError ''cannot convert float NaN to integer'')),
     float_round_nd = (\<lambda>x n. Inr ()),
     math_fn = (\<lambda>f x. Inr ()),
     int_log = (\<lambda>f i. ()),
     complex_of_float = (\<lambda>x. ()),
     complex_add = (\<lambda>a b. ()),
     complex_sub = (\<lambda>a b. ()),
     complex_mul = (\<lambda>a b. ()),
     complex_truediv = (\<lambda>a b. ()),
     complex_pow = (\<lambda>a b. Inr ()),
     complex_neg = (\<lambda>a. ()),
     complex_abs = (\<lambda>a. Some ()),
     complex_is_zero = (\<lambda>a. False),
     const_float = (\<lambda>c. ()) \<rparr>"



definition num :: "int \<Rightarrow> 'f expr" where
  "num i = Constant (CInt i)"

definition sample_trees :: "(pystr \<times> 'f expr) list" where
  "sample_trees =
     [(py ''2+2'', BinOp (num 2) Add (num 2)),
      (py ''10/0'', BinOp (num 10) Div (num 0)),
      (py ''2**10'', BinOp (num 2) Pow_op (num 10)),
      (py ''2**11'', BinOp (num 2) Pow_op (num 11)),
      (py ''-7 // 2'', BinOp (UnaryOp USub (num 7)) FloorDiv (num 2)),
      (py ''-7 % 2'', BinOp (UnaryOp USub (num 7)) Mod (num 2)),
      (py ''4*5'', BinOp (num 4) Mult (num 5)),
      (py ''8/2'', BinOp (num 8) Div (num 2)),
      (py ''9-4'', BinOp (num 9) Sub (num 4)),
      (py ''True'', Constant (CBool True)),
      (py ''False'', Constant (CBool False)),
      (py ''pi'', Name (py ''pi'')),
      (py ''sqrt'', Name (py ''sqrt'')),
      (py ''pi(1)'', Call (Name (py ''pi'')) [num 1] []),
      (py ''abs(1, k=x.y)'',
         Call (Name (py ''abs'')) [num 1]
              [(Some (py ''k''), Attribute (Name (py ''x'')) (py ''y''))]),
      (py ''[1]'', List [num 1]),
      ([39, 97, 39], Constant (CStr (py ''a''))),
      (py ''1|2'', BinOp (num 1) BitOr (num 2))]"

definition sample_malformed :: "pystr list" where
  "sample_malformed = [[], py ''(1+2'', py ''1++'']"

definition sample_parse :: "pystr \<Rightarrow> exn + 'f expr" where
  "sample_parse s =
     (if s \<in> set sample_malformed then Inl SyntaxError
      else case map_of sample_trees s of
             Some node \<Rightarrow> Inr node
           | None \<Rightarrow> Inl MemoryError)"

subsection \<open>The nodes of a tree\<close>

text \<open>
  Every expression node of a tree, the node itself included, as \<^verbatim>\<open>ast.walk\<close>
  enumerates them: the values of keyword arguments are nodes of the tree too.
\<close>

fun descendants :: "'f expr \<Rightarrow> 'f expr list" where
  "descendants (Constant c) = [Constant c]"
| "descendants (UnaryOp u x) = UnaryOp u x # descendants x"
| "descendants (BinOp l op r) = BinOp l op r # descendants l @ descendants r"
| "descendants (Call f args ks) =
     Call f args ks # descendants f @ concat (map descendants args)
       @ concat (map (\<lambda>(k, v). descendants v) ks)"
| "descendants (Name n) = [Name n]"
| "descendants (Tuple xs) = Tuple xs # concat (map descendants xs)"
| "descendants (List xs) = List xs # concat (map descendants xs)"
| "descendants (Attribute x a) = Attribute x a # descendants x"
| "descendants (Subscript x i) = Subscript x i # descendants x @ descendants i"
| "descendants (Starred x) = Starred x # descendants x"
| "descendants (OtherExpr k xs) = OtherExpr k xs # concat (map descendants xs)"

text \<open>
  The constructs that the specification places outside the arithmetic grammar and
  that a tree can contain: attribute access, subscripting, a string or list literal,
  an identifier that is not in the table, a call to a name that is not in the table.
\<close>

fun outside_grammar :: "'f expr \<Rightarrow> bool" where
  "outside_grammar (Attribute x a) = True"
| "outside_grammar (Subscript x i) = True"
| "outside_grammar (List xs) = True"
| "outside_grammar (Constant (CStr s)) = True"
| "outside_grammar (Name n) = (allowed_names n = None)"
| "outside_grammar (Call (Name n) args ks) = (allowed_names n = None)"
| "outside_grammar node = False"

section \<open>Properties\<close>

subsection \<open>Unfolding the evaluator\<close>

lemmas value_defs = as_int_def is_float_def is_complex_def is_func_def is_real_number_def
  is_number_def

lemmas op_defs = and_then_def to_float_def to_complex_def coerce_def is_zero_def py_add_def py_sub_def
  py_mul_def py_truediv_def py_floordiv_def py_mod_def py_pow_def py_pos_def py_neg_def
  py_abs_def py_gt_int_def

lemmas table_defs = allowed_names_def allowed_names_items_def entry_value_def py_def

lemmas node_defs = isinstance_allowed_def allowed_nodes_def num_def

declare eval_node.simps [simp del]

lemma eval_node_allowed [simp]:
  "eval_node F (Constant c) = eval_allowed F (Constant c)"
  "eval_node F (UnaryOp u x) = eval_allowed F (UnaryOp u x)"
  "eval_node F (BinOp l op r) = eval_allowed F (BinOp l op r)"
  "eval_node F (Call f args ks) = eval_allowed F (Call f args ks)"
  "eval_node F (Name n) = eval_allowed F (Name n)"
  "eval_node F (Tuple xs) = Inl (ValueError ''Invalid expression'')"
  "eval_node F (List xs) = Inl (ValueError ''Invalid expression'')"
  by (simp_all add: eval_node.simps node_defs)

lemma eval_node_disallowed:
  "\<not> isinstance_allowed node \<Longrightarrow> eval_node F node = Inl (ValueError ''Disallowed expression'')"
  by (simp add: eval_node.simps)

lemma not_allowed_classes [simp]:
  "\<not> isinstance_allowed (Attribute x a)"
  "\<not> isinstance_allowed (Subscript x i)"
  "\<not> isinstance_allowed (Starred x)"
  "\<not> isinstance_allowed (OtherExpr k xs)"
  by (simp_all add: node_defs) (cases k; simp)

lemma evaluate_parsed:
  "parse (sanitize s) = Inr node \<Longrightarrow> evaluate F parse s = eval_node F node"
  by (simp add: evaluate_def)

lemma evaluate_syntax_error:
  "parse (sanitize s) = Inl SyntaxError \<Longrightarrow>
   evaluate F parse s = Inl (ValueError ''Invalid expression'')"
  by (simp add: evaluate_def)

lemma sanitize_ascii:
  "\<forall>c \<in> set s. c < 128 \<Longrightarrow> sanitize s = s"
  by (induction s) (auto simp: sanitize_def str_replace_def)

lemma sanitize_idem: "sanitize (sanitize s) = sanitize s"
  by (induction s) (auto simp: sanitize_def str_replace_def)

subsection \<open>Boolean literals\<close>

text \<open>
  Claim C10. A \<^verbatim>\<open>Constant\<close> node carrying a boolean passes the check
  \<^verbatim>\<open>isinstance(node.value, (int, float))\<close>, because \<^verbatim>\<open>bool\<close> is a subclass of
  \<^verbatim>\<open>int\<close>: the node evaluates to the boolean itself, whose integer value is 1 for
  \<^verbatim>\<open>True\<close> and 0 for \<^verbatim>\<open>False\<close>. So whenever the parser returns these nodes for the
  strings \<^verbatim>\<open>True\<close> and \<^verbatim>\<open>False\<close>, \<open>evaluate\<close> succeeds on them.
\<close>

theorem boolean_literals_accepted:
  assumes "parse (py ''True'') = Inr (Constant (CBool True))"
    and "parse (py ''False'') = Inr (Constant (CBool False))"
  shows "evaluate F parse (py ''True'') = Inr (VBool True)
       \<and> as_int (VBool True :: ('f, 'c) val) = Some 1
       \<and> evaluate F parse (py ''False'') = Inr (VBool False)
       \<and> as_int (VBool False :: ('f, 'c) val) = Some 0
       \<and> (\<forall>b. eval_node F (Constant (CBool b)) = Inr (VBool b))"
proof -
  have t: "sanitize (py ''True'') = py ''True''"
    by (rule sanitize_ascii) (simp add: py_def)
  have f: "sanitize (py ''False'') = py ''False''"
    by (rule sanitize_ascii) (simp add: py_def)
  have node: "eval_node F (Constant (CBool b)) = Inr (VBool b)" for b
    by simp
  have "evaluate F parse (py ''True'') = Inr (VBool True)"
    using assms(1) t node by (simp add: evaluate_parsed)
  moreover have "evaluate F parse (py ''False'') = Inr (VBool False)"
    using assms(2) f node by (simp add: evaluate_parsed)
  ultimately show ?thesis
    using node by (simp add: as_int_def)
qed

theorem boolean_literals_accepted_witness:
  "evaluate sample_host sample_parse (py ''True'') = Inr (VBool True)
   \<and> evaluate sample_host sample_parse (py ''False'') = Inr (VBool False)"
proof -
  have t: "sample_parse (py ''True'') = Inr (Constant (CBool True) :: unit expr)"
    by (simp add: sample_parse_def sample_malformed_def sample_trees_def py_def)
  have f: "sample_parse (py ''False'') = Inr (Constant (CBool False) :: unit expr)"
    by (simp add: sample_parse_def sample_malformed_def sample_trees_def py_def)
  show ?thesis
    using boolean_literals_accepted [OF t f, of sample_host] by blast
qed

subsection \<open>Shared lemmas on the binary operators\<close>

lemma sample_parse_simps:
  "sample_parse (py ''2**10'') = Inr (BinOp (num 2) Pow_op (num 10))"
  "sample_parse (py ''2**11'') = Inr (BinOp (num 2) Pow_op (num 11))"
  "sample_parse (py ''-7 // 2'') = Inr (BinOp (UnaryOp USub (num 7)) FloorDiv (num 2))"
  "sample_parse (py ''-7 % 2'') = Inr (BinOp (UnaryOp USub (num 7)) Mod (num 2))"
  "sample_parse (py ''10/0'') = Inr (BinOp (num 10) Div (num 0))"
  "sample_parse (py ''4*5'') = Inr (BinOp (num 4) Mult (num 5))"
  "sample_parse (py ''8/2'') = Inr (BinOp (num 8) Div (num 2))"
  "sample_parse (py ''9-4'') = Inr (BinOp (num 9) Sub (num 4))"
  by (simp_all add: sample_parse_def sample_malformed_def sample_trees_def py_def)

lemma sanitize_examples:
  "sanitize (py ''2**10'') = py ''2**10''"
  "sanitize (py ''2**11'') = py ''2**11''"
  "sanitize (py ''-7 // 2'') = py ''-7 // 2''"
  "sanitize (py ''-7 % 2'') = py ''-7 % 2''"
  "sanitize (py ''10/0'') = py ''10/0''"
  "sanitize (py ''4*5'') = py ''4*5''"
  "sanitize (py ''8/2'') = py ''8/2''"
  "sanitize (py ''9-4'') = py ''9-4''"
  by (simp_all add: sanitize_def str_replace_def py_def)

lemma eval_num [simp]: "eval_node F (num i) = Inr (VInt i)"
  by (simp add: num_def)

lemma pow_guarded:
  assumes "eval_node F a = Inr l" and "eval_node F b = Inr r"
    and "is_real_number l" and "is_real_number r"
  shows "eval_node F (BinOp a Pow_op b) =
     (if abs_exceeds F l 1000000 \<or> abs_exceeds F r 10
      then Inl (ValueError ''Exponent too large'') else py_pow F l r)"
  using assms
  by (cases l; cases r)
     (simp_all add: is_real_number_def abs_exceeds_def py_abs_def py_gt_int_def and_then_def)

lemma py_pow_ints:
  "0 \<le> j \<Longrightarrow> py_pow F (VInt i) (VInt j) = Inr (VInt (i ^ nat j))"
  by (simp add: op_defs value_defs)


lemma truediv_zero:
  assumes "eval_node F a = Inr l" and "eval_node F b = Inr r"
    and "is_number l" and "is_zero F r"
  shows "eval_node F (BinOp a Div b) = Inl ZeroDivisionError
       \<or> (eval_node F (BinOp a Div b) = Inl OverflowError
           \<and> (\<exists>i. (as_int l = Some i \<or> as_int r = Some i) \<and> float_of_int F i = None))"
  using assms
  by (cases l; cases r) (auto simp add: op_defs value_defs split: option.splits)

lemma truediv_zero_same_kind:
  assumes "eval_node F a = Inr l" and "eval_node F b = Inr r" and "is_zero F r"
    and "(as_int l \<noteq> None \<and> as_int r \<noteq> None) \<or> (is_float l \<and> is_float r)"
  shows "eval_node F (BinOp a Div b) = Inl ZeroDivisionError"
  using assms
  by (cases l; cases r) (auto simp add: op_defs value_defs)




lemma sanitize_ascii_form: "sanitize s = ascii_form s"
  by (induction s) (auto simp: sanitize_def str_replace_def ascii_form_def ascii_of_glyph_def)

lemma evaluate_unfold:
  "evaluate F parse s = (case parse (ascii_form s) of
       Inl e \<Rightarrow> Inl (if e = SyntaxError then ValueError ''Invalid expression'' else e)
     | Inr node \<Rightarrow> eval_node F node)"
  by (auto simp: evaluate_def sanitize_ascii_form split: sum.splits exn.splits)

lemma not_in_table: "allowed_names n = None \<longleftrightarrow> n \<notin> set spec_registry"
proof -
  have "dom allowed_names = set spec_registry"
    unfolding allowed_names_def dom_map_of_conv_image_fst
    by (simp add: allowed_names_items_def spec_registry_def)
  then show ?thesis by (metis domIff)
qed

subsection \<open>The exponent guard\<close>

text \<open>
  Claim C3. For operands \<open>l\<close> and \<open>r\<close> of \<^verbatim>\<open>**\<close> that are integers, booleans or
  floats, the evaluation raises \<^verbatim>\<open>ValueError('Exponent too large')\<close>, an arithmetic
  error in the specification's terms, when \<^verbatim>\<open>abs(l) > 1e6\<close> or \<^verbatim>\<open>abs(r) > 10\<close>,
  and is \<^verbatim>\<open>l ** r\<close> otherwise; on integers within the bounds and a non-negative
  exponent that is the exact power. Whenever the parser returns the trees of
  \<^verbatim>\<open>2**10\<close> and \<^verbatim>\<open>2**11\<close>, the first evaluates to 1024 and the second fails
  with that error.
\<close>

theorem pow_exponent_guard:
  "(\<forall>a b l r. eval_node F a = Inr l \<longrightarrow> eval_node F b = Inr r \<longrightarrow>
       is_real_number l \<longrightarrow> is_real_number r \<longrightarrow>
       eval_node F (BinOp a Pow_op b) =
         (if abs_exceeds F l 1000000 \<or> abs_exceeds F r 10
          then Inl (ValueError ''Exponent too large'') else py_pow F l r))
   \<and> (\<forall>i j. \<bar>i\<bar> \<le> 1000000 \<longrightarrow> 0 \<le> j \<longrightarrow> j \<le> 10 \<longrightarrow>
         eval_node F (BinOp (num i) Pow_op (num j)) = Inr (VInt (i ^ nat j)))
   \<and> (\<forall>i j. 1000000 < \<bar>i\<bar> \<or> 10 < \<bar>j\<bar> \<longrightarrow>
         eval_node F (BinOp (num i) Pow_op (num j)) = Inl (ValueError ''Exponent too large''))
   \<and> spec_kind (ValueError ''Exponent too large'') = Some ArithmeticError_k
   \<and> (parse (py ''2**10'') = Inr (BinOp (num 2) Pow_op (num 10)) \<longrightarrow>
         evaluate F parse (py ''2**10'') = Inr (VInt 1024))
   \<and> (parse (py ''2**11'') = Inr (BinOp (num 2) Pow_op (num 11)) \<longrightarrow>
         evaluate F parse (py ''2**11'') = Inl (ValueError ''Exponent too large''))"
proof -
  have ints: "eval_node F (BinOp (num i) Pow_op (num j)) =
      (if 1000000 < \<bar>i\<bar> \<or> 10 < \<bar>j\<bar> then Inl (ValueError ''Exponent too large'')
       else py_pow F (VInt i) (VInt j))" for i j
    using pow_guarded [of F "num i" "VInt i" "num j" "VInt j"]
    by (simp add: is_real_number_def abs_exceeds_def)
  have within: "eval_node F (BinOp (num i) Pow_op (num j)) = Inr (VInt (i ^ nat j))"
    if "\<bar>i\<bar> \<le> 1000000" "0 \<le> j" "j \<le> 10" for i j
    using that ints [of i j] py_pow_ints [of j F i] by (simp del: eval_node_allowed)
  have "evaluate F parse (py ''2**10'') = Inr (VInt 1024)"
    if "parse (py ''2**10'') = Inr (BinOp (num 2) Pow_op (num 10))"
    using that within [of 2 10] by (simp add: evaluate_parsed sanitize_examples del: eval_node_allowed)
  moreover have "evaluate F parse (py ''2**11'') = Inl (ValueError ''Exponent too large'')"
    if "parse (py ''2**11'') = Inr (BinOp (num 2) Pow_op (num 11))"
    using that ints [of 2 11] by (simp add: evaluate_parsed sanitize_examples del: eval_node_allowed)
  moreover have "spec_kind (ValueError ''Exponent too large'') = Some ArithmeticError_k"
    by (simp add: spec_kind_def)
  ultimately show ?thesis
    using pow_guarded [of F] within ints by (simp del: eval_node_allowed)
qed

theorem pow_exponent_guard_witness:
  "evaluate sample_host sample_parse (py ''2**10'') = Inr (VInt 1024)
   \<and> evaluate sample_host sample_parse (py ''2**11'') = Inl (ValueError ''Exponent too large'')
   \<and> eval_node sample_host (BinOp (num 1000001) Pow_op (num 2))
       = Inl (ValueError ''Exponent too large'')
   \<and> eval_node sample_host (BinOp (num (- 3)) Pow_op (num 3)) = Inr (VInt (- 27))"
proof -
  note g = pow_exponent_guard [of sample_host sample_parse]
  have "evaluate sample_host sample_parse (py ''2**10'') = Inr (VInt 1024)"
    using g sample_parse_simps(1) by blast
  moreover have "evaluate sample_host sample_parse (py ''2**11'')
      = Inl (ValueError ''Exponent too large'')"
    using g sample_parse_simps(2) by blast
  moreover have "eval_node sample_host (BinOp (num 1000001) Pow_op (num 2))
      = Inl (ValueError ''Exponent too large'')"
  proof -
    have "(1000000::int) < \<bar>1000001\<bar> \<or> (10::int) < \<bar>2\<bar>" by simp
    with g show ?thesis by blast
  qed
  moreover have "eval_node sample_host (BinOp (num (- 3)) Pow_op (num 3)) = Inr (VInt (- 27))"
  proof -
    have "\<bar>- 3 :: int\<bar> \<le> 1000000" "(0::int) \<le> 3" "(3::int) \<le> 10" by simp_all
    with g have "eval_node sample_host (BinOp (num (- 3)) Pow_op (num 3))
        = Inr (VInt ((- 3) ^ nat 3))" by blast
    then show ?thesis by simp
  qed
  ultimately show ?thesis by simp
qed

subsection \<open>Floor division and remainder\<close>



subsection \<open>Division by zero\<close>

text \<open>
  Claim C8. A true division whose left operand evaluates to a number and whose right
  operand evaluates to exactly zero never returns a value: it raises
  \<^verbatim>\<open>ZeroDivisionError\<close>, unless an integer operand is too large to be converted to a
  float, which raises \<^verbatim>\<open>OverflowError\<close> before the divisor is looked at. Both are
  arithmetic errors. Between two integers, or two floats, it is always
  \<^verbatim>\<open>ZeroDivisionError\<close>; so it is for the tree of \<^verbatim>\<open>10/0\<close>.
\<close>

theorem division_by_zero:
  "(\<forall>a b l r. eval_node F a = Inr l \<longrightarrow> eval_node F b = Inr r \<longrightarrow>
       is_number l \<longrightarrow> is_zero F r \<longrightarrow>
       eval_node F (BinOp a Div b) = Inl ZeroDivisionError
     \<or> (eval_node F (BinOp a Div b) = Inl OverflowError
         \<and> (\<exists>i. (as_int l = Some i \<or> as_int r = Some i) \<and> float_of_int F i = None)))
   \<and> (\<forall>a b l r. eval_node F a = Inr l \<longrightarrow> eval_node F b = Inr r \<longrightarrow> is_zero F r \<longrightarrow>
       (as_int l \<noteq> None \<and> as_int r \<noteq> None) \<or> (is_float l \<and> is_float r) \<longrightarrow>
       eval_node F (BinOp a Div b) = Inl ZeroDivisionError)
   \<and> spec_kind ZeroDivisionError = Some ArithmeticError_k
   \<and> spec_kind OverflowError = Some ArithmeticError_k
   \<and> (parse (py ''10/0'') = Inr (BinOp (num 10) Div (num 0)) \<longrightarrow>
         evaluate F parse (py ''10/0'') = Inl ZeroDivisionError)"
proof -
  have ten: "eval_node F (BinOp (num 10) Div (num 0)) = Inl ZeroDivisionError"
    by (rule truediv_zero_same_kind [of F _ "VInt 10" _ "VInt 0"])
       (simp_all add: is_zero_def as_int_def)
  have "evaluate F parse (py ''10/0'') = Inl ZeroDivisionError"
    if "parse (py ''10/0'') = Inr (BinOp (num 10) Div (num 0))"
    using that ten by (simp add: evaluate_parsed sanitize_examples del: eval_node_allowed)
  moreover have "spec_kind ZeroDivisionError = Some ArithmeticError_k"
    "spec_kind OverflowError = Some ArithmeticError_k"
    by (simp_all add: spec_kind_def)
  ultimately show ?thesis
    using truediv_zero [of F] truediv_zero_same_kind [of F] by blast
qed

theorem division_by_zero_witness:
  "evaluate sample_host sample_parse (py ''10/0'') = Inl ZeroDivisionError
   \<and> eval_node sample_host (BinOp (num (- 3)) Div (Constant (CBool False)))
       = Inl ZeroDivisionError"
proof -
  note g = division_by_zero [of sample_host sample_parse]
  have "evaluate sample_host sample_parse (py ''10/0'') = Inl ZeroDivisionError"
    using g sample_parse_simps(5) by blast
  moreover have "eval_node sample_host (BinOp (num (- 3)) Div (Constant (CBool False)))
      = Inl ZeroDivisionError"
  proof -
    have e: "eval_node sample_host (num (- 3)) = Inr (VInt (- 3))"
      "eval_node sample_host (Constant (CBool False)) = Inr (VBool False)"
      "is_zero sample_host (VBool False)"
      "(as_int (VInt (- 3) :: (unit, unit) val) \<noteq> None
          \<and> as_int (VBool False :: (unit, unit) val) \<noteq> None)
        \<or> (is_float (VInt (- 3) :: (unit, unit) val) \<and> is_float (VBool False :: (unit, unit) val))"
      by (simp_all add: as_int_def is_zero_def)
    from g e show ?thesis by blast
  qed
  ultimately show ?thesis by simp
qed

subsection \<open>The kinds of error\<close>

text \<open>
  Claim C5, as stated, fails. The claim has five kinds of error, one for each failure
  mode. But a list literal, which the parser accepts, is reported by the very exception
  that reports malformed input, \<^verbatim>\<open>ValueError('Invalid expression')\<close>: the classes
  \<^verbatim>\<open>ast.Tuple\<close> and \<^verbatim>\<open>ast.List\<close> are in \<^verbatim>\<open>allowed_nodes\<close>, no branch handles them
  and they reach the final \<^verbatim>\<open>raise\<close>. And a string literal and an operator such as
  \<^verbatim>\<open>|\<close> are reported by \<^verbatim>\<open>ValueError('Invalid constant')\<close> and
  \<^verbatim>\<open>ValueError('Unsupported operator')\<close>, which are none of the five kinds.
\<close>

theorem error_kinds_counterexample:
  "sample_parse (py ''[1]'') = (Inr (List [num 1]) :: exn + unit expr)
   \<and> evaluate sample_host sample_parse (py ''[1]'') = Inl (ValueError ''Invalid expression'')
   \<and> sample_parse (py ''(1+2'') = (Inl SyntaxError :: exn + unit expr)
   \<and> evaluate sample_host sample_parse (py ''(1+2'') = Inl (ValueError ''Invalid expression'')
   \<and> spec_kind (ValueError ''Invalid expression'') = Some SyntaxError_k
   \<and> evaluate sample_host sample_parse [39, 97, 39] = Inl (ValueError ''Invalid constant'')
   \<and> spec_kind (ValueError ''Invalid constant'') = None
   \<and> evaluate sample_host sample_parse (py ''1|2'') = Inl (ValueError ''Unsupported operator'')
   \<and> spec_kind (ValueError ''Unsupported operator'') = None
   \<and> \<not> (\<forall>t e. eval_node sample_host t = Inl e \<longrightarrow> spec_kind e \<noteq> None)"
proof -
  have p: "sample_parse (py ''[1]'') = (Inr (List [num 1]) :: exn + unit expr)"
    "sample_parse (py ''(1+2'') = (Inl SyntaxError :: exn + unit expr)"
    "sample_parse [39, 97, 39] = (Inr (Constant (CStr (py ''a''))) :: exn + unit expr)"
    "sample_parse (py ''1|2'') = (Inr (BinOp (num 1) BitOr (num 2)) :: exn + unit expr)"
    by (simp_all add: sample_parse_def sample_malformed_def sample_trees_def py_def)
  have s: "sanitize (py ''[1]'') = py ''[1]''" "sanitize (py ''(1+2'') = py ''(1+2''"
    "sanitize [39, 97, 39] = [39, 97, 39]" "sanitize (py ''1|2'') = py ''1|2''"
    by (simp_all add: sanitize_def str_replace_def py_def)
  have c: "eval_node sample_host (Constant (CStr (py ''a''))) = Inl (ValueError ''Invalid constant'')"
    by simp
  have k: "spec_kind (ValueError ''Invalid constant'') = None"
    by (simp add: spec_kind_def)
  from c k have "\<not> (\<forall>t e. eval_node sample_host t = Inl e \<longrightarrow> spec_kind e \<noteq> None)"
    by blast
  then show ?thesis
    using p s by (simp add: evaluate_parsed evaluate_syntax_error spec_kind_def)
qed

text \<open>
  Claim C5, amended to what the source does by design. Every failure that the
  evaluator reports itself is a \<^verbatim>\<open>ValueError\<close> whose message tells the mode, and a
  division by zero is the interpreter's \<^verbatim>\<open>ZeroDivisionError\<close>:
  \<^item> \<^verbatim>\<open>'Invalid expression'\<close> for input that the parser rejects with a
    \<^verbatim>\<open>SyntaxError\<close>, and also for a tuple or a list; any other exception of the
    parser passes through unchanged;
  \<^item> \<^verbatim>\<open>'Disallowed expression'\<close> for an attribute access, a subscript, a starred
    expression and every other class of expression that \<^verbatim>\<open>allowed_nodes\<close> does not
    name, whatever is below the node;
  \<^item> \<^verbatim>\<open>'Invalid constant'\<close> for a literal that is not an integer, a boolean or a float;
  \<^item> \<^verbatim>\<open>'Unsupported operator'\<close> and \<^verbatim>\<open>'Unsupported unary operator'\<close> for an operator
    outside the seven binary and two unary ones, once the operands are evaluated;
  \<^item> \<^verbatim>\<open>'Unknown identifier'\<close> for an identifier that is none of the ten names of the
    registry;
  \<^item> \<^verbatim>\<open>'Function not allowed'\<close> for a call whose target is not a name, or a name that
    is none of the ten, before any argument is evaluated;
  \<^item> \<^verbatim>\<open>ZeroDivisionError\<close> for an integer divided by zero with \<^verbatim>\<open>/\<close>, \<^verbatim>\<open>//\<close> or
    \<^verbatim>\<open>%\<close>, and \<^verbatim>\<open>'Exponent too large'\<close> for integers beyond the bounds of the guard.
  These nine exceptions are pairwise distinct; an error of an operand is the error of the
  whole expression, unchanged; and whenever the parser rejects the empty string,
  \<^verbatim>\<open>(1+2\<close> and \<^verbatim>\<open>1++\<close>, \<open>evaluate\<close> reports \<^verbatim>\<open>'Invalid expression'\<close>. Nothing is
  said of a name of the registry used in the wrong role.
\<close>

theorem error_messages_by_mode:
  "(parse (sanitize s) = Inl SyntaxError \<longrightarrow>
      evaluate F parse s = Inl (ValueError ''Invalid expression''))
   \<and> (parse (sanitize s) = Inl e \<longrightarrow> e \<noteq> SyntaxError \<longrightarrow> evaluate F parse s = Inl e)
   \<and> eval_node F (Tuple xs) = Inl (ValueError ''Invalid expression'')
   \<and> eval_node F (List xs) = Inl (ValueError ''Invalid expression'')
   \<and> eval_node F (Attribute x a) = Inl (ValueError ''Disallowed expression'')
   \<and> eval_node F (Subscript x y) = Inl (ValueError ''Disallowed expression'')
   \<and> eval_node F (Starred x) = Inl (ValueError ''Disallowed expression'')
   \<and> eval_node F (OtherExpr k xs) = Inl (ValueError ''Disallowed expression'')
   \<and> eval_node F (Constant (CStr str)) = Inl (ValueError ''Invalid constant'')
   \<and> eval_node F (Constant CBytes) = Inl (ValueError ''Invalid constant'')
   \<and> eval_node F (Constant CComplex) = Inl (ValueError ''Invalid constant'')
   \<and> eval_node F (Constant CNone) = Inl (ValueError ''Invalid constant'')
   \<and> eval_node F (Constant CEllipsis) = Inl (ValueError ''Invalid constant'')
   \<and> (eval_node F x = Inr v \<longrightarrow> eval_node F y = Inr w \<longrightarrow>
        op \<in> {MatMult, LShift, RShift, BitOr, BitXor, BitAnd} \<longrightarrow>
        eval_node F (BinOp x op y) = Inl (ValueError ''Unsupported operator''))
   \<and> (eval_node F x = Inr v \<longrightarrow> u \<in> {Invert, Not_op} \<longrightarrow>
        eval_node F (UnaryOp u x) = Inl (ValueError ''Unsupported unary operator''))
   \<and> (n \<notin> set spec_registry \<longrightarrow>
        eval_node F (Name n) = Inl (ValueError ''Unknown identifier''))
   \<and> (n \<notin> set spec_registry \<longrightarrow>
        eval_node F (Call (Name n) args ks) = Inl (ValueError ''Function not allowed''))
   \<and> ((\<forall>m. f \<noteq> Name m) \<longrightarrow>
        eval_node F (Call f args ks) = Inl (ValueError ''Function not allowed''))
   \<and> (eval_node F x = Inr v \<longrightarrow> eval_node F y = Inr w \<longrightarrow>
        as_int v = Some i \<longrightarrow> as_int w = Some 0 \<longrightarrow> op \<in> {Div, FloorDiv, Mod} \<longrightarrow>
        eval_node F (BinOp x op y) = Inl ZeroDivisionError)
   \<and> (eval_node F x = Inr v \<longrightarrow> eval_node F y = Inr w \<longrightarrow>
        as_int v = Some i \<longrightarrow> as_int w = Some j \<longrightarrow> 1000000 < \<bar>i\<bar> \<or> 10 < \<bar>j\<bar> \<longrightarrow>
        eval_node F (BinOp x Pow_op y) = Inl (ValueError ''Exponent too large''))
   \<and> distinct
        [ValueError ''Invalid expression'', ValueError ''Disallowed expression'',
         ValueError ''Invalid constant'', ValueError ''Unsupported operator'',
         ValueError ''Unsupported unary operator'', ValueError ''Unknown identifier'',
         ValueError ''Function not allowed'', ValueError ''Exponent too large'',
         ZeroDivisionError]
   \<and> (eval_node F x = Inl e \<longrightarrow> eval_node F (UnaryOp u x) = Inl e)
   \<and> (eval_node F x = Inl e \<longrightarrow> eval_node F (BinOp x op y) = Inl e)
   \<and> (eval_node F x = Inr v \<longrightarrow> eval_node F y = Inl e \<longrightarrow>
        eval_node F (BinOp x op y) = Inl e)
   \<and> (parse [] = Inl SyntaxError \<longrightarrow>
        evaluate F parse [] = Inl (ValueError ''Invalid expression''))
   \<and> (parse (py ''(1+2'') = Inl SyntaxError \<longrightarrow>
        evaluate F parse (py ''(1+2'') = Inl (ValueError ''Invalid expression''))
   \<and> (parse (py ''1++'') = Inl SyntaxError \<longrightarrow>
        evaluate F parse (py ''1++'') = Inl (ValueError ''Invalid expression''))"
proof -
  have s0: "sanitize [] = []" "sanitize (py ''(1+2'') = py ''(1+2''"
    "sanitize (py ''1++'') = py ''1++''"
    by (simp_all add: sanitize_def str_replace_def py_def)
  have syn: "evaluate F parse s = Inl (ValueError ''Invalid expression'')"
    if "parse (sanitize s) = Inl SyntaxError"
    using that by (rule evaluate_syntax_error)
  have other: "evaluate F parse s = Inl e" if "parse (sanitize s) = Inl e" "e \<noteq> SyntaxError"
    using that by (cases e) (simp_all add: evaluate_def)
  have syn0: "evaluate F parse [] = Inl (ValueError ''Invalid expression'')"
    if "parse [] = Inl SyntaxError"
    using that by (simp add: evaluate_syntax_error s0)
  have syn1: "evaluate F parse (py ''(1+2'') = Inl (ValueError ''Invalid expression'')"
    if "parse (py ''(1+2'') = Inl SyntaxError"
    using that by (simp add: evaluate_syntax_error s0)
  have syn2: "evaluate F parse (py ''1++'') = Inl (ValueError ''Invalid expression'')"
    if "parse (py ''1++'') = Inl SyntaxError"
    using that by (simp add: evaluate_syntax_error s0)
  have nodes: "eval_node F (Tuple xs) = Inl (ValueError ''Invalid expression'')"
    "eval_node F (List xs) = Inl (ValueError ''Invalid expression'')"
    "eval_node F (Attribute x a) = Inl (ValueError ''Disallowed expression'')"
    "eval_node F (Subscript x y) = Inl (ValueError ''Disallowed expression'')"
    "eval_node F (Starred x) = Inl (ValueError ''Disallowed expression'')"
    "eval_node F (OtherExpr k xs) = Inl (ValueError ''Disallowed expression'')"
    by (simp_all add: eval_node_disallowed)
  have lits: "eval_node F (Constant (CStr str)) = Inl (ValueError ''Invalid constant'')"
    "eval_node F (Constant CBytes) = Inl (ValueError ''Invalid constant'')"
    "eval_node F (Constant CComplex) = Inl (ValueError ''Invalid constant'')"
    "eval_node F (Constant CNone) = Inl (ValueError ''Invalid constant'')"
    "eval_node F (Constant CEllipsis) = Inl (ValueError ''Invalid constant'')"
    by simp_all
  have bop: "eval_node F (BinOp x op y) = Inl (ValueError ''Unsupported operator'')"
    if "eval_node F x = Inr v" "eval_node F y = Inr w"
       "op \<in> {MatMult, LShift, RShift, BitOr, BitXor, BitAnd}"
    using that by auto
  have uop: "eval_node F (UnaryOp u x) = Inl (ValueError ''Unsupported unary operator'')"
    if "eval_node F x = Inr v" "u \<in> {Invert, Not_op}"
    using that by auto
  have unk: "eval_node F (Name n) = Inl (ValueError ''Unknown identifier'')"
    if "n \<notin> set spec_registry"
    using that by (simp flip: not_in_table)
  have fna: "eval_node F (Call (Name n) args ks) = Inl (ValueError ''Function not allowed'')"
    if "n \<notin> set spec_registry"
    using that by (simp flip: not_in_table)
  have call: "eval_node F (Call f args ks) = Inl (ValueError ''Function not allowed'')"
    if "\<forall>m. f \<noteq> Name m"
    using that by (cases f) simp_all
  have dz: "eval_node F (BinOp x op y) = Inl ZeroDivisionError"
    if "eval_node F x = Inr v" "eval_node F y = Inr w" "as_int v = Some i" "as_int w = Some 0"
       "op \<in> {Div, FloorDiv, Mod}"
    using that by (cases v; cases w) (auto simp: op_defs value_defs split: if_splits)
  have pw: "eval_node F (BinOp x Pow_op y) = Inl (ValueError ''Exponent too large'')"
    if "eval_node F x = Inr v" "eval_node F y = Inr w" "as_int v = Some i" "as_int w = Some j"
       "1000000 < \<bar>i\<bar> \<or> 10 < \<bar>j\<bar>"
    using that by (cases v; cases w) (auto simp: op_defs value_defs split: if_splits)
  have di: "distinct
        [ValueError ''Invalid expression'', ValueError ''Disallowed expression'',
         ValueError ''Invalid constant'', ValueError ''Unsupported operator'',
         ValueError ''Unsupported unary operator'', ValueError ''Unknown identifier'',
         ValueError ''Function not allowed'', ValueError ''Exponent too large'',
         ZeroDivisionError]"
    by simp
  have un: "eval_node F (UnaryOp u x) = Inl e" if "eval_node F x = Inl e"
    using that by simp
  have b1: "eval_node F (BinOp x op y) = Inl e" if "eval_node F x = Inl e"
    using that by simp
  have b2: "eval_node F (BinOp x op y) = Inl e"
    if "eval_node F x = Inr v" "eval_node F y = Inl e"
    using that by simp
  show ?thesis
    using syn other syn0 syn1 syn2 nodes lits bop uop unk fna call dz pw di un b1 b2
    by blast
qed

theorem error_messages_by_mode_witness:
  "evaluate sample_host sample_parse [] = Inl (ValueError ''Invalid expression'')
   \<and> evaluate sample_host sample_parse (py ''(1+2'') = Inl (ValueError ''Invalid expression'')
   \<and> evaluate sample_host sample_parse (py ''1++'') = Inl (ValueError ''Invalid expression'')
   \<and> evaluate sample_host (\<lambda>s. Inl RecursionError) (py ''1'') = Inl RecursionError
   \<and> eval_node sample_host (Name (py ''x'')) = Inl (ValueError ''Unknown identifier'')
   \<and> eval_node sample_host (Call (Name (py ''exec'')) [num 1] [])
       = Inl (ValueError ''Function not allowed'')
   \<and> eval_node sample_host (Call (Attribute (Name (py ''os'')) (py ''system'')) [] [])
       = Inl (ValueError ''Function not allowed'')
   \<and> eval_node sample_host (BinOp (num 1) BitOr (num 2))
       = Inl (ValueError ''Unsupported operator'')
   \<and> eval_node sample_host (UnaryOp Invert (num 1))
       = Inl (ValueError ''Unsupported unary operator'')
   \<and> eval_node sample_host (BinOp (num 7) Mod (Constant (CBool False)))
       = Inl ZeroDivisionError
   \<and> eval_node sample_host (BinOp (num 2) Pow_op (num 11))
       = Inl (ValueError ''Exponent too large'')
   \<and> eval_node sample_host (BinOp (Name (py ''x'')) Add (num 1))
       = Inl (ValueError ''Unknown identifier'')"
proof -
  have p: "sample_parse [] = (Inl SyntaxError :: exn + unit expr)"
    "sample_parse (py ''(1+2'') = (Inl SyntaxError :: exn + unit expr)"
    "sample_parse (py ''1++'') = (Inl SyntaxError :: exn + unit expr)"
    "RecursionError \<noteq> SyntaxError"
    by (simp_all add: sample_parse_def sample_malformed_def sample_trees_def py_def
          sanitize_def str_replace_def)
  have x: "py ''x'' \<notin> set spec_registry" "py ''exec'' \<notin> set spec_registry"
    by (simp_all add: spec_registry_def py_def)
  have t: "\<forall>m. (Attribute (Name (py ''os'')) (py ''system'') :: unit expr) \<noteq> Name m"
    by simp
  have v: "eval_node sample_host (num 1) = Inr (VInt 1)"
    "eval_node sample_host (num 2) = Inr (VInt 2)"
    "eval_node sample_host (num 7) = Inr (VInt 7)"
    "eval_node sample_host (num 11) = Inr (VInt 11)"
    "eval_node sample_host (Constant (CBool False)) = Inr (VBool False)"
    "as_int (VInt 7 :: (unit, unit) val) = Some 7"
    "as_int (VInt 2 :: (unit, unit) val) = Some 2"
    "as_int (VInt 11 :: (unit, unit) val) = Some 11"
    "as_int (VBool False :: (unit, unit) val) = Some 0"
    by (simp_all add: as_int_def)
  have o: "BitOr \<in> {MatMult, LShift, RShift, BitOr, BitXor, BitAnd}" "Invert \<in> {Invert, Not_op}"
    "Mod \<in> {Div, FloorDiv, Mod}" "(1000000 :: int) < \<bar>2\<bar> \<or> (10 :: int) < \<bar>11\<bar>"
    by simp_all
  have "evaluate sample_host sample_parse [] = Inl (ValueError ''Invalid expression'')"
    using error_messages_by_mode [of sample_parse _ sample_host] p(1) by blast
  moreover have "evaluate sample_host sample_parse (py ''(1+2'')
      = Inl (ValueError ''Invalid expression'')"
    using error_messages_by_mode [of sample_parse _ sample_host] p(2) by blast
  moreover have "evaluate sample_host sample_parse (py ''1++'')
      = Inl (ValueError ''Invalid expression'')"
    using error_messages_by_mode [of sample_parse _ sample_host] p(3) by blast
  moreover have "evaluate sample_host (\<lambda>s. Inl RecursionError) (py ''1'') = Inl RecursionError"
    using error_messages_by_mode
      [of "\<lambda>s. Inl RecursionError" "py ''1''" sample_host RecursionError] p(4)
    by blast
  moreover have u: "eval_node sample_host (Name (py ''x''))
      = Inl (ValueError ''Unknown identifier'')"
    using error_messages_by_mode [where F = sample_host and n = "py ''x''"] x(1) by blast
  moreover have "eval_node sample_host (Call (Name (py ''exec'')) [num 1] [])
      = Inl (ValueError ''Function not allowed'')"
    using error_messages_by_mode [where F = sample_host and n = "py ''exec''"] x(2) by blast
  moreover have "eval_node sample_host (Call (Attribute (Name (py ''os'')) (py ''system'')) [] [])
      = Inl (ValueError ''Function not allowed'')"
    using error_messages_by_mode
      [where F = sample_host and f = "Attribute (Name (py ''os'')) (py ''system'')"] t
    by blast
  moreover have "eval_node sample_host (BinOp (num 1) BitOr (num 2))
      = Inl (ValueError ''Unsupported operator'')"
    using error_messages_by_mode
      [where F = sample_host and x = "num 1" and y = "num 2" and op = BitOr] v(1,2) o(1)
    by blast
  moreover have "eval_node sample_host (UnaryOp Invert (num 1))
      = Inl (ValueError ''Unsupported unary operator'')"
    using error_messages_by_mode [where F = sample_host and x = "num 1" and u = Invert]
      v(1) o(2)
    by blast
  moreover have "eval_node sample_host (BinOp (num 7) Mod (Constant (CBool False)))
      = Inl ZeroDivisionError"
    using error_messages_by_mode
      [where F = sample_host and x = "num 7" and y = "Constant (CBool False)" and op = Mod
         and i = 7]
      v(3,5,6,9) o(3)
    by blast
  moreover have "eval_node sample_host (BinOp (num 2) Pow_op (num 11))
      = Inl (ValueError ''Exponent too large'')"
    using error_messages_by_mode
      [where F = sample_host and x = "num 2" and y = "num 11" and i = 2 and j = 11]
      v(2,4,7,8) o(4)
    by blast
  moreover have "eval_node sample_host (BinOp (Name (py ''x'')) Add (num 1))
      = Inl (ValueError ''Unknown identifier'')"
    using error_messages_by_mode [where F = sample_host and x = "Name (py ''x'')"] u
    by blast
  ultimately show ?thesis by blast
qed

subsection \<open>The sanitizer\<close>

text \<open>
  Claim C6. Before it parses, \<open>evaluate\<close> replaces every multiplication glyph U+00D7
  by \<^verbatim>\<open>*\<close>, every division glyph U+00F7 by \<^verbatim>\<open>/\<close> and every minus glyph U+2212 by
  \<^verbatim>\<open>-\<close>, and changes no other code point: what is parsed is the ASCII form of the
  expression, whatever the expression. So an expression and its ASCII form, an
  expression and the one with an occurrence of a glyph replaced by its operator, and
  any two expressions with the same sanitized form evaluate to the same result. The
  glyph forms of \<^verbatim>\<open>4*5\<close>, \<^verbatim>\<open>8/2\<close> and \<^verbatim>\<open>9-4\<close> have these strings as ASCII forms, and
  whenever the parser returns their trees the first evaluates to 20, the second to
  the quotient of 8 by 2 and the third to 5, in either form.
\<close>

theorem sanitizer_equivalence:
  "sanitize s = ascii_form s
   \<and> length (sanitize s) = length s
   \<and> 215 \<notin> set (sanitize s) \<and> 247 \<notin> set (sanitize s) \<and> 8722 \<notin> set (sanitize s)
   \<and> evaluate F parse s = (case parse (ascii_form s) of
         Inl e \<Rightarrow> Inl (if e = SyntaxError then ValueError ''Invalid expression'' else e)
       | Inr node \<Rightarrow> eval_node F node)
   \<and> evaluate F parse s = evaluate F parse (ascii_form s)
   \<and> evaluate F parse (u @ [215] @ v) = evaluate F parse (u @ [42] @ v)
   \<and> evaluate F parse (u @ [247] @ v) = evaluate F parse (u @ [47] @ v)
   \<and> evaluate F parse (u @ [8722] @ v) = evaluate F parse (u @ [45] @ v)
   \<and> evaluate F parse s = evaluate F parse (sanitize s)
   \<and> (sanitize s = sanitize t \<longrightarrow> evaluate F parse s = evaluate F parse t)
   \<and> sanitize [52, 215, 53] = py ''4*5''
   \<and> sanitize [56, 247, 50] = py ''8/2''
   \<and> sanitize [57, 8722, 52] = py ''9-4''
   \<and> evaluate F parse [52, 215, 53] = evaluate F parse (py ''4*5'')
   \<and> evaluate F parse [56, 247, 50] = evaluate F parse (py ''8/2'')
   \<and> evaluate F parse [57, 8722, 52] = evaluate F parse (py ''9-4'')
   \<and> (parse (py ''4*5'') = Inr (BinOp (num 4) Mult (num 5)) \<longrightarrow>
        evaluate F parse [52, 215, 53] = Inr (VInt 20)
      \<and> evaluate F parse (py ''4*5'') = Inr (VInt 20))
   \<and> (parse (py ''8/2'') = Inr (BinOp (num 8) Div (num 2)) \<longrightarrow>
        evaluate F parse [56, 247, 50]
          = (case int_truediv F 8 2 of None \<Rightarrow> Inl OverflowError | Some x \<Rightarrow> Inr (VFloat x))
      \<and> evaluate F parse (py ''8/2'')
          = (case int_truediv F 8 2 of None \<Rightarrow> Inl OverflowError | Some x \<Rightarrow> Inr (VFloat x)))
   \<and> (parse (py ''9-4'') = Inr (BinOp (num 9) Sub (num 4)) \<longrightarrow>
        evaluate F parse [57, 8722, 52] = Inr (VInt 5)
      \<and> evaluate F parse (py ''9-4'') = Inr (VInt 5))"
proof -
  have form: "sanitize w = ascii_form w" for w
    by (rule sanitize_ascii_form)
  have len: "length (sanitize s) = length s"
    by (simp add: form ascii_form_def)
  have gone: "215 \<notin> set (sanitize s)" "247 \<notin> set (sanitize s)" "8722 \<notin> set (sanitize s)"
    by (auto simp: form ascii_form_def ascii_of_glyph_def split: if_splits)
  have unfold: "evaluate F parse s = (case parse (ascii_form s) of
         Inl e \<Rightarrow> Inl (if e = SyntaxError then ValueError ''Invalid expression'' else e)
       | Inr node \<Rightarrow> eval_node F node)"
    by (rule evaluate_unfold)
  have same: "evaluate F parse a = evaluate F parse b" if "sanitize a = sanitize b" for a b
    using that by (simp add: evaluate_def)
  have idem: "evaluate F parse s = evaluate F parse (ascii_form s)"
    "evaluate F parse s = evaluate F parse (sanitize s)"
    by (rule same, simp add: sanitize_idem flip: form)+
  have occ: "evaluate F parse (u @ [215] @ v) = evaluate F parse (u @ [42] @ v)"
    "evaluate F parse (u @ [247] @ v) = evaluate F parse (u @ [47] @ v)"
    "evaluate F parse (u @ [8722] @ v) = evaluate F parse (u @ [45] @ v)"
    by (rule same, simp add: form ascii_form_def ascii_of_glyph_def)+
  have g: "sanitize [52, 215, 53] = py ''4*5''" "sanitize [56, 247, 50] = py ''8/2''"
    "sanitize [57, 8722, 52] = py ''9-4''"
    by (simp_all add: sanitize_def str_replace_def py_def)
  have e: "evaluate F parse [52, 215, 53] = evaluate F parse (py ''4*5'')"
    "evaluate F parse [56, 247, 50] = evaluate F parse (py ''8/2'')"
    "evaluate F parse [57, 8722, 52] = evaluate F parse (py ''9-4'')"
    by (rule same, simp add: g sanitize_examples)+
  have m: "eval_node F (BinOp (num 4) Mult (num 5)) = Inr (VInt 20)"
    "eval_node F (BinOp (num 9) Sub (num 4)) = Inr (VInt 5)"
    "eval_node F (BinOp (num 8) Div (num 2))
       = (case int_truediv F 8 2 of None \<Rightarrow> Inl OverflowError | Some x \<Rightarrow> Inr (VFloat x))"
    by (simp_all add: op_defs value_defs)
  have p1: "evaluate F parse (py ''4*5'') = Inr (VInt 20)"
    if "parse (py ''4*5'') = Inr (BinOp (num 4) Mult (num 5))"
    using that m(1) by (simp add: evaluate_parsed sanitize_examples del: eval_node_allowed)
  have p2: "evaluate F parse (py ''9-4'') = Inr (VInt 5)"
    if "parse (py ''9-4'') = Inr (BinOp (num 9) Sub (num 4))"
    using that m(2) by (simp add: evaluate_parsed sanitize_examples del: eval_node_allowed)
  have p3: "evaluate F parse (py ''8/2'')
       = (case int_truediv F 8 2 of None \<Rightarrow> Inl OverflowError | Some x \<Rightarrow> Inr (VFloat x))"
    if "parse (py ''8/2'') = Inr (BinOp (num 8) Div (num 2))"
    using that m(3) by (simp add: evaluate_parsed sanitize_examples del: eval_node_allowed)
  have q1: "evaluate F parse [52, 215, 53] = Inr (VInt 20)
      \<and> evaluate F parse (py ''4*5'') = Inr (VInt 20)"
    if "parse (py ''4*5'') = Inr (BinOp (num 4) Mult (num 5))"
    using p1 [OF that] e(1) by simp
  have q2: "evaluate F parse [57, 8722, 52] = Inr (VInt 5)
      \<and> evaluate F parse (py ''9-4'') = Inr (VInt 5)"
    if "parse (py ''9-4'') = Inr (BinOp (num 9) Sub (num 4))"
    using p2 [OF that] e(3) by simp
  have q3: "evaluate F parse [56, 247, 50]
          = (case int_truediv F 8 2 of None \<Rightarrow> Inl OverflowError | Some x \<Rightarrow> Inr (VFloat x))
      \<and> evaluate F parse (py ''8/2'')
          = (case int_truediv F 8 2 of None \<Rightarrow> Inl OverflowError | Some x \<Rightarrow> Inr (VFloat x))"
    if "parse (py ''8/2'') = Inr (BinOp (num 8) Div (num 2))"
    using p3 [OF that] e(2) by simp
  show ?thesis
    using form [of s] len gone unfold idem occ same [of s t] g e q1 q2 q3
    by blast
qed

theorem sanitizer_equivalence_witness:
  "evaluate sample_host sample_parse [52, 215, 53] = Inr (VInt 20)
   \<and> evaluate sample_host sample_parse (py ''4*5'') = Inr (VInt 20)
   \<and> evaluate sample_host sample_parse [57, 8722, 52] = Inr (VInt 5)
   \<and> evaluate sample_host sample_parse [56, 247, 50]
       = evaluate sample_host sample_parse (py ''8/2'')
   \<and> evaluate sample_host sample_parse [56, 247, 50] = Inr (VFloat ())
   \<and> sanitize [50, 215, 51, 8722, 49] = py ''2*3-1''"
proof -
  note g = sanitizer_equivalence [of _ sample_host sample_parse]
  have a: "evaluate sample_host sample_parse [52, 215, 53] = Inr (VInt 20)
     \<and> evaluate sample_host sample_parse (py ''4*5'') = Inr (VInt 20)"
    using g sample_parse_simps(6) by blast
  have b: "evaluate sample_host sample_parse [57, 8722, 52] = Inr (VInt 5)"
    using g sample_parse_simps(8) by blast
  have c: "evaluate sample_host sample_parse [56, 247, 50]
       = evaluate sample_host sample_parse (py ''8/2'')"
    using g by blast
  have "evaluate sample_host sample_parse [56, 247, 50]
       = (case int_truediv sample_host 8 2 of
            None \<Rightarrow> Inl OverflowError | Some x \<Rightarrow> Inr (VFloat x))"
    using g sample_parse_simps(7) by blast
  then have d: "evaluate sample_host sample_parse [56, 247, 50] = Inr (VFloat ())"
    by (simp add: sample_host_def)
  have "sanitize [50, 215, 51, 8722, 49] = ascii_form [50, 215, 51, 8722, 49]"
    using sanitizer_equivalence [of "[50, 215, 51, 8722, 49]" sample_host sample_parse]
    by blast
  then have f: "sanitize [50, 215, 51, 8722, 49] = py ''2*3-1''"
    by (simp add: ascii_form_def ascii_of_glyph_def py_def)
  from a b c d f show ?thesis by blast
qed

subsection \<open>Keyword arguments are not visited\<close>

text \<open>
  Claim C1, at the input \<^verbatim>\<open>abs(1, k=x.y)\<close>. The tree of this string contains an
  attribute access and the identifier \<^verbatim>\<open>x\<close>, which is not in the table, both inside
  the value of a keyword argument. The \<^verbatim>\<open>Call\<close> branch of \<^verbatim>\<open>_eval\<close> evaluates
  \<^verbatim>\<open>node.args\<close> only and never looks at \<^verbatim>\<open>node.keywords\<close>: the evaluation
  returns 1 and raises no error.
\<close>

theorem keyword_argument_not_validated:
  "sample_parse (py ''abs(1, k=x.y)'') =
     (Inr (Call (Name (py ''abs'')) [num 1]
            [(Some (py ''k''), Attribute (Name (py ''x'')) (py ''y''))]) :: exn + 'f expr)
   \<and> (Attribute (Name (py ''x'')) (py ''y'') :: 'f expr)
       \<in> set (descendants (Call (Name (py ''abs'')) [num 1]
                [(Some (py ''k''), Attribute (Name (py ''x'')) (py ''y''))]))
   \<and> outside_grammar (Attribute (Name (py ''x'')) (py ''y'') :: 'f expr)
   \<and> (Name (py ''x'') :: 'f expr)
       \<in> set (descendants (Call (Name (py ''abs'')) [num 1]
                [(Some (py ''k''), Attribute (Name (py ''x'')) (py ''y''))]))
   \<and> outside_grammar (Name (py ''x'') :: 'f expr)
   \<and> evaluate (F :: ('f, 'c) host) sample_parse (py ''abs(1, k=x.y)'') = Inr (VInt 1)"
proof -
  have p: "sample_parse (py ''abs(1, k=x.y)'') =
     (Inr (Call (Name (py ''abs'')) [num 1]
            [(Some (py ''k''), Attribute (Name (py ''x'')) (py ''y''))]) :: exn + 'f expr)"
    by (simp add: sample_parse_def sample_malformed_def sample_trees_def py_def)
  have s: "sanitize (py ''abs(1, k=x.y)'') = py ''abs(1, k=x.y)''"
    by (simp add: sanitize_def str_replace_def py_def)
  have a: "allowed_names (py ''abs'') = Some (FuncEntry Abs)" "allowed_names (py ''x'') = None"
    by (simp_all add: table_defs)
  have "eval_node F (Call (Name (py ''abs'')) [num 1]
            [(Some (py ''k''), Attribute (Name (py ''x'')) (py ''y''))]) = Inr (VInt 1)"
    by (simp add: a entry_value_def call_value_def call_builtin_def py_abs_def)
  then have "evaluate F sample_parse (py ''abs(1, k=x.y)'') = Inr (VInt 1)"
    using p s by (simp add: evaluate_parsed del: eval_node_allowed)
  then show ?thesis
    using p a(2) by simp
qed

subsection \<open>Names of functions used as identifiers, constants used as functions\<close>

text \<open>
  Claim C2, at the input \<^verbatim>\<open>sqrt\<close>. The \<^verbatim>\<open>Name\<close> branch returns whatever the table
  holds for the identifier; for \<^verbatim>\<open>sqrt\<close> that is the builtin function itself. So
  \<open>evaluate\<close> returns a function object, which is neither a number nor an error.
  At the input \<^verbatim>\<open>pi(1)\<close> it raises \<^verbatim>\<open>TypeError\<close>, the float \<^verbatim>\<open>math.pi\<close> not being
  callable, which is none of the kinds of the specification.
\<close>

theorem evaluate_returns_function_object:
  "evaluate (F :: ('f, 'c) host) sample_parse (py ''sqrt'') = Inr (VFunc Sqrt)
   \<and> is_number (VFunc Sqrt :: ('f, 'c) val) = False
   \<and> evaluate F sample_parse (py ''pi(1)'') = Inl (TypeError NotCallable)
   \<and> spec_kind (TypeError NotCallable) = None"
proof -
  have p: "sample_parse (py ''sqrt'') = (Inr (Name (py ''sqrt'')) :: exn + 'f expr)"
    "sample_parse (py ''pi(1)'') = (Inr (Call (Name (py ''pi'')) [num 1] []) :: exn + 'f expr)"
    by (simp_all add: sample_parse_def sample_malformed_def sample_trees_def py_def)
  have s: "sanitize (py ''sqrt'') = py ''sqrt''" "sanitize (py ''pi(1)'') = py ''pi(1)''"
    by (simp_all add: sanitize_def str_replace_def py_def)
  have a: "allowed_names (py ''sqrt'') = Some (FuncEntry Sqrt)"
    "allowed_names (py ''pi'') = Some (ConstEntry Const_pi)"
    by (simp_all add: table_defs)
  have "evaluate F sample_parse (py ''sqrt'') = Inr (VFunc Sqrt)"
    using p(1) s(1) by (simp add: evaluate_parsed a entry_value_def)
  moreover have "evaluate F sample_parse (py ''pi(1)'') = Inl (TypeError NotCallable)"
    using p(2) s(2) by (simp add: evaluate_parsed a entry_value_def call_value_def)
  ultimately show ?thesis
    by (simp add: is_number_def spec_kind_def)
qed

text \<open>
  Claim C7, at the identifier \<^verbatim>\<open>sqrt\<close>. The table has exactly the ten names of the
  claim, \<^verbatim>\<open>pi\<close> and \<^verbatim>\<open>e\<close> bound to the two constants and the other eight to the
  functions, and the identifiers \<^verbatim>\<open>pi\<close> and \<^verbatim>\<open>e\<close> evaluate to the constants. But an
  identifier that names one of the eight functions is not rejected: the \<^verbatim>\<open>Name\<close>
  branch tests membership in the one table and returns the function object.
\<close>

theorem identifier_table_lookup:
  "dom allowed_names =
     {py ''pi'', py ''e'', py ''sqrt'', py ''sin'', py ''cos'', py ''tan'', py ''log'',
      py ''log10'', py ''abs'', py ''round''}
   \<and> map allowed_names [py ''pi'', py ''e''] = [Some (ConstEntry Const_pi), Some (ConstEntry Const_e)]
   \<and> map allowed_names
        [py ''sqrt'', py ''sin'', py ''cos'', py ''tan'', py ''log'', py ''log10'', py ''abs'',
         py ''round'']
      = map (\<lambda>f. Some (FuncEntry f)) [Sqrt, Sin, Cos, Tan, Log, Log10, Abs, Round]
   \<and> eval_node F (Name (py ''pi'')) = Inr (VFloat (const_float F Const_pi))
   \<and> eval_node F (Name (py ''e'')) = Inr (VFloat (const_float F Const_e))
   \<and> eval_node F (Name (py ''sqrt'')) = Inr (VFunc Sqrt)
   \<and> map (\<lambda>n. eval_node F (Name n))
        [py ''sin'', py ''cos'', py ''tan'', py ''log'', py ''log10'', py ''abs'', py ''round'']
      = map (\<lambda>f. Inr (VFunc f)) [Sin, Cos, Tan, Log, Log10, Abs, Round]"
proof -
  have d: "dom allowed_names =
     {py ''pi'', py ''e'', py ''sqrt'', py ''sin'', py ''cos'', py ''tan'', py ''log'',
      py ''log10'', py ''abs'', py ''round''}"
    unfolding allowed_names_def dom_map_of_conv_image_fst
    by (simp add: allowed_names_items_def)
  have a: "map allowed_names [py ''pi'', py ''e''] = [Some (ConstEntry Const_pi), Some (ConstEntry Const_e)]"
    "map allowed_names
        [py ''sqrt'', py ''sin'', py ''cos'', py ''tan'', py ''log'', py ''log10'', py ''abs'',
         py ''round'']
      = map (\<lambda>f. Some (FuncEntry f)) [Sqrt, Sin, Cos, Tan, Log, Log10, Abs, Round]"
    by (simp_all add: table_defs)
  from a show ?thesis
    using d by (simp add: entry_value_def)
qed

text \<open>
  Claim C9, at the call \<^verbatim>\<open>pi(1)\<close>. The names \<^verbatim>\<open>pi\<close> and \<^verbatim>\<open>e\<close> are constants, not
  functions, but the \<^verbatim>\<open>Call\<close> branch tests membership in the one table that holds
  both: the call is not rejected with \<^verbatim>\<open>ValueError('Function not allowed')\<close>, the
  arguments are evaluated and calling the float raises \<^verbatim>\<open>TypeError\<close>.
\<close>

theorem call_of_constant_not_rejected:
  "allowed_names (py ''pi'') = Some (ConstEntry Const_pi)
   \<and> allowed_names (py ''e'') = Some (ConstEntry Const_e)
   \<and> eval_node F (Call (Name (py ''pi'')) [num 1] []) = Inl (TypeError NotCallable)
   \<and> eval_node F (Call (Name (py ''e'')) [] []) = Inl (TypeError NotCallable)
   \<and> spec_kind (TypeError NotCallable) = None
   \<and> spec_kind (ValueError ''Function not allowed'') = Some FunctionNotAllowedError_k"
proof -
  have a: "allowed_names (py ''pi'') = Some (ConstEntry Const_pi)"
    "allowed_names (py ''e'') = Some (ConstEntry Const_e)"
    by (simp_all add: table_defs)
  then show ?thesis
    by (simp add: entry_value_def call_value_def spec_kind_def)
qed

end
